theory Spec2Isabelle
  imports Complex_Main
begin

section \<open>The question-answer retrieval engine of qajupyter.ipynb\<close>

text \<open>
  The notebook defines two classes. \<open>QAEmbedder\<close> turns a list of strings into one
  vector per string (tokenizer, transformer model, masked mean pooling, batched).
  \<open>QASearcher\<close> keeps the current answers, questions and normalised question embeddings
  and answers new questions by the best cosine similarity.

  Conventions of the embedding.
  \<^item> A 2-d torch tensor is the list of its rows; a 3-d tensor the list of its 2-d slices.
    Tensor entries are reals. The elementwise operations (pooling, normalisation) are
    exact; the matrix product \<open>torch.mm\<close>, whose float32 rounding depends on the kernel
    of the torch build and on the position of the entry, is a parameter (\<open>mm_kernel\<close>).
  \<^item> The pretrained tokenizer and model are external to the notebook. They are fields of
    the embedder record, as they are attributes of the Python object, and are arbitrary
    functions; \<open>hidden_size\<close> is the last dimension of the model's output.
  \<^item> A Python exception is a value \<open>Inl e\<close>. A method of \<open>QASearcher\<close> takes \<open>self\<close> and
    returns its result together with \<open>self\<close> as the method leaves it, also when it raises.
\<close>

subsection \<open>Exceptions\<close>

text \<open>
  \<open>ValueError\<close>, \<open>RuntimeError\<close>, \<open>TypeError\<close> and \<open>IndexError\<close> are the exceptions the
  Python and torch operations of the notebook raise. \<open>ShapeMismatch\<close>, \<open>ContextNotSet\<close>
  and \<open>EmptyContext\<close> are the failure kinds the specification names; no function below
  produces them, they are here so that statements about them can be written.
\<close>

datatype error =
    ValueError | RuntimeError | TypeError | IndexError
  | ShapeMismatch | ContextNotSet | EmptyContext

subsection \<open>Tensors and the torch operations the notebook calls\<close>

type_synonym tensor = "real list list"

text \<open>\<open>torch.clamp(x, min=lo)\<close> on one entry.\<close>

definition clamp_min :: "real \<Rightarrow> real \<Rightarrow> real" where
  "clamp_min x lo = max x lo"

text \<open>
  \<open>torch.cat(ts, dim=0)\<close>: an empty list of tensors is rejected with a RuntimeError
  (``expected a non-empty list of Tensors''); otherwise the rows are concatenated. All
  tensors the notebook concatenates have \<open>hidden_size\<close> columns, so the check that the
  other dimensions agree cannot fail and is not written.
\<close>

definition torch_cat :: "tensor list \<Rightarrow> error + tensor" where
  "torch_cat ts = (if ts = [] then Inl RuntimeError else Inr (concat ts))"

text \<open>The Euclidean norm of a row.\<close>

definition l2_norm :: "real list \<Rightarrow> real" where
  "l2_norm v = sqrt (sum_list (map (\<lambda>a. a\<^sup>2) v))"

text \<open>
  The divisor \<open>torch.nn.functional.normalize\<close> uses for a row: the norm, floored at the
  default \<open>eps = 1e-12\<close>.
\<close>

definition normalize_denominator :: "real list \<Rightarrow> real" where
  "normalize_denominator v = max (l2_norm v) (1 / 10 ^ 12)"

text \<open>
  \<open>torch.nn.functional.normalize(x, p=2, dim=1)\<close>: every row divided by its divisor.
  (The name \<open>normalize\<close> is taken by the library.)
\<close>

definition normalize_row :: "real list \<Rightarrow> real list" where
  "normalize_row v = map (\<lambda>a. a / normalize_denominator v) v"

definition normalize_l2 :: "tensor \<Rightarrow> tensor" where
  "normalize_l2 x = map normalize_row x"

text \<open>\<open>x.transpose(0,1)\<close> of a tensor with \<open>n\<close> columns.\<close>

definition transpose01 :: "nat \<Rightarrow> tensor \<Rightarrow> tensor" where
  "transpose01 n x = map (\<lambda>d. map (\<lambda>row. row ! d) x) [0..<n]"

text \<open>Number of columns of a tensor that has at least one row.\<close>

definition ncols :: "tensor \<Rightarrow> nat" where
  "ncols b = (case b of [] \<Rightarrow> 0 | r # _ \<Rightarrow> length r)"

text \<open>
  The float32 matrix product of the torch build: \<open>mm a b i j\<close> is the entry at row \<open>i\<close> and
  column \<open>j\<close> that the kernel computes for the product of \<open>a\<close> and \<open>b\<close>. It is external to
  the notebook and is a parameter of every function that calls \<open>torch.mm\<close>. A float32
  kernel rounds after every operation, and which operations it fuses and in which order
  it adds depends on the position of the entry (vector lanes and remainder columns), so
  two equal columns of \<open>b\<close> need not give equal entries.
\<close>

type_synonym mm_kernel = "tensor \<Rightarrow> tensor \<Rightarrow> nat \<Rightarrow> nat \<Rightarrow> real"

text \<open>
  \<open>torch.mm(a, b)\<close>. The second argument is the attribute \<open>self.question_embeddings\<close>,
  which is \<open>None\<close> until a context is set: torch then raises a TypeError. Rows of \<open>a\<close>
  whose length is not the number of rows of \<open>b\<close> give a RuntimeError (shapes cannot be
  multiplied). Otherwise the result has the rows of \<open>a\<close> and the columns of \<open>b\<close>, and its
  entries are those of the kernel.
\<close>

definition torch_mm :: "mm_kernel \<Rightarrow> tensor \<Rightarrow> tensor option \<Rightarrow> error + tensor" where
  "torch_mm mm a b_opt =
     (case b_opt of
        None \<Rightarrow> Inl TypeError
      | Some b \<Rightarrow>
          if list_all (\<lambda>r. length r = length b) a
          then Inr (map (\<lambda>i. map (\<lambda>j. mm a b i j) [0..<ncols b]) [0..<length a])
          else Inl RuntimeError)"

text \<open>
  \<open>t.argmax()\<close> of a 1-d tensor: the index of the first maximal entry (torch documents
  that the first of several maximal values is returned). \<open>argmax_scan best bi i xs\<close> is
  the scan with the best entry so far, its index, and the index of the head of \<open>xs\<close>.
  An empty tensor is rejected.
\<close>

fun argmax_scan :: "'a::linorder \<Rightarrow> nat \<Rightarrow> nat \<Rightarrow> 'a list \<Rightarrow> nat" where
  "argmax_scan best bi i [] = bi"
| "argmax_scan best bi i (x # xs) =
     (if best < x then argmax_scan x i (Suc i) xs else argmax_scan best bi (Suc i) xs)"

definition argmax :: "'a::linorder list \<Rightarrow> error + nat" where
  "argmax xs = (case xs of [] \<Rightarrow> Inl IndexError | x # rest \<Rightarrow> Inr (argmax_scan x 0 1 rest))"

subsection \<open>Python lists\<close>

text \<open>
  \<open>range(0, n, step)\<close>: a zero step is a ValueError; a negative step gives the empty
  range (the start 0 is not above the stop); a positive step gives 0, step, 2*step, ...
  below \<open>n\<close>.
\<close>

definition py_range :: "nat \<Rightarrow> int \<Rightarrow> error + nat list" where
  "py_range n step =
     (if step = 0 then Inl ValueError
      else if step < 0 then Inr []
      else Inr (map (\<lambda>k. k * nat step) [0..<(n + nat step - 1) div nat step]))"

text \<open>\<open>xs[i:j]\<close> for \<open>0 \<le> i \<le> j\<close>.\<close>

definition py_slice :: "'a list \<Rightarrow> nat \<Rightarrow> nat \<Rightarrow> 'a list" where
  "py_slice xs i j = take (j - i) (drop i xs)"

text \<open>
  \<open>xs[i]\<close> for an attribute that may still be \<open>None\<close> (TypeError: not subscriptable) and
  an index \<open>i \<ge> 0\<close> (IndexError when out of range).
\<close>

definition py_index :: "'a list option \<Rightarrow> nat \<Rightarrow> error + 'a" where
  "py_index xs i =
     (case xs of
        None \<Rightarrow> Inl TypeError
      | Some l \<Rightarrow> if i < length l then Inr (l ! i) else Inl IndexError)"

subsection \<open>QAEmbedder\<close>

text \<open>
  What the tokenizer returns for a batch of strings (\<open>padding=True\<close>,
  \<open>return_tensors='pt'\<close>): the token ids and the attention mask, both of shape
  (batch, tokens); the mask is 1 on real tokens and 0 on padding.
\<close>

record encoded_input =
  input_ids :: "nat list list"
  attention_mask :: "int list list"

text \<open>
  The embedder object. \<open>model\<close> stands for \<open>self.model(**encoded_input)[0]\<close>, the token
  embeddings of shape (batch, tokens, hidden_size).
\<close>

record QAEmbedder =
  tokenizer :: "string list \<Rightarrow> encoded_input"
  model :: "encoded_input \<Rightarrow> real list list list"
  hidden_size :: nat

text \<open>
  \<open>_mean_pooling\<close>, for one text of the batch, with token vectors \<open>toks\<close> and mask row
  \<open>ms\<close>: entry \<open>d\<close> of \<open>torch.sum(token_embeddings * input_mask_expanded, 1)\<close>, the entry
  of \<open>input_mask_expanded.sum(1)\<close> (the same for every \<open>d\<close>), the clamped divisor, and the
  pooled row of \<open>n\<close> entries. \<open>mean_pooling\<close> pools every text of the batch; the token
  embeddings and the mask come from the same tokenizer output and have the same first
  two dimensions (\<open>wf_embedder\<close> below), so \<open>expand\<close> does not fail.
\<close>

definition masked_sum :: "real list list \<Rightarrow> int list \<Rightarrow> nat \<Rightarrow> real" where
  "masked_sum toks ms d = sum_list (map2 (\<lambda>v m. v ! d * real_of_int m) toks ms)"

definition mask_sum :: "int list \<Rightarrow> real" where
  "mask_sum ms = sum_list (map real_of_int ms)"

definition pool_denominator :: "int list \<Rightarrow> real" where
  "pool_denominator ms = clamp_min (mask_sum ms) (1 / 10 ^ 9)"

definition pool_row :: "nat \<Rightarrow> real list list \<Rightarrow> int list \<Rightarrow> real list" where
  "pool_row n toks ms = map (\<lambda>d. masked_sum toks ms d / pool_denominator ms) [0..<n]"

definition mean_pooling :: "nat \<Rightarrow> real list list list \<Rightarrow> int list list \<Rightarrow> tensor" where
  "mean_pooling n token_embeddings attn_mask = map2 (pool_row n) token_embeddings attn_mask"

text \<open>
  The body of the loop of \<open>get_embeddings\<close> for the chunk that starts at index \<open>i\<close>, and
  the loop itself over the indices of \<open>range(0, len(questions), batch)\<close>, appending to
  the list \<open>question_embeddings\<close>.
\<close>

definition batch_embeddings :: "QAEmbedder \<Rightarrow> string list \<Rightarrow> nat \<Rightarrow> nat \<Rightarrow> tensor" where
  "batch_embeddings self qs batch i =
     (let encoded = tokenizer self (py_slice qs i (i + batch));
          model_output = model self encoded
      in mean_pooling (hidden_size self) model_output (attention_mask encoded))"

fun get_embeddings_loop ::
  "QAEmbedder \<Rightarrow> string list \<Rightarrow> nat \<Rightarrow> nat list \<Rightarrow> tensor list \<Rightarrow> tensor list" where
  "get_embeddings_loop self qs batch [] question_embeddings = question_embeddings"
| "get_embeddings_loop self qs batch (i # is) question_embeddings =
     get_embeddings_loop self qs batch is
       (question_embeddings @ [batch_embeddings self qs batch i])"

definition get_embeddings :: "QAEmbedder \<Rightarrow> string list \<Rightarrow> int \<Rightarrow> error + tensor" where
  "get_embeddings self qs batch =
     (case py_range (length qs) batch of
        Inl e \<Rightarrow> Inl e
      | Inr is \<Rightarrow> torch_cat (get_embeddings_loop self qs (nat batch) is []))"

subsection \<open>QASearcher\<close>

record QASearcher =
  answers :: "string list option"
  questions :: "string list option"
  question_embeddings :: "tensor option"
  embedder :: QAEmbedder

text \<open>One entry of the response of \<open>get_answers\<close>.\<close>

record answer =
  orig_q :: string
  best_q :: string
  best_a :: string

text \<open>\<open>__init__\<close>: nothing is stored yet.\<close>

definition QASearcher_init :: "QAEmbedder \<Rightarrow> QASearcher" where
  "QASearcher_init e =
     \<lparr>answers = None, questions = None, question_embeddings = None, embedder = e\<rparr>"

definition get_q_embeddings :: "QASearcher \<Rightarrow> string list \<Rightarrow> (error + tensor) \<times> QASearcher" where
  "get_q_embeddings self qs =
     (case get_embeddings (embedder self) qs 32 of
        Inl e \<Rightarrow> (Inl e, self)
      | Inr emb \<Rightarrow> (Inr (transpose01 (hidden_size (embedder self)) (normalize_l2 emb)), self))"

text \<open>
  \<open>set_context_qa\<close> assigns \<open>self.answers\<close> and \<open>self.questions\<close> before it computes the
  embeddings, so these two assignments stand when the embedding raises.
\<close>

definition set_context_qa ::
  "QASearcher \<Rightarrow> string list \<Rightarrow> string list \<Rightarrow> (error + unit) \<times> QASearcher" where
  "set_context_qa self qs as =
     (let self1 = self\<lparr>answers := Some as\<rparr>;
          self2 = self1\<lparr>questions := Some qs\<rparr>
      in case get_q_embeddings self2 qs of
           (Inl e, self3) \<Rightarrow> (Inl e, self3)
         | (Inr emb, self3) \<Rightarrow> (Inr (), self3\<lparr>question_embeddings := Some emb\<rparr>))"

definition cosine_similarity ::
  "mm_kernel \<Rightarrow> QASearcher \<Rightarrow> string list \<Rightarrow> int \<Rightarrow> (error + tensor) \<times> QASearcher" where
  "cosine_similarity mm self qs batch =
     (case get_embeddings (embedder self) qs batch of
        Inl e \<Rightarrow> (Inl e, self)
      | Inr emb \<Rightarrow> (torch_mm mm (normalize_l2 emb) (question_embeddings self), self))"

text \<open>
  The loop of \<open>get_answers\<close> over \<open>range(similarity.shape[0])\<close>. The two attribute reads
  come first, then the dictionary is built, which reads \<open>questions[i]\<close>.
\<close>

fun get_answers_loop ::
  "QASearcher \<Rightarrow> string list \<Rightarrow> tensor \<Rightarrow> nat list \<Rightarrow> answer list \<Rightarrow> error + answer list" where
  "get_answers_loop self qs similarity [] response = Inr response"
| "get_answers_loop self qs similarity (i # is) response =
     (case argmax (similarity ! i) of
        Inl e \<Rightarrow> Inl e
      | Inr best_ix \<Rightarrow>
          (case py_index (questions self) best_ix of
             Inl e \<Rightarrow> Inl e
           | Inr bq \<Rightarrow>
               (case py_index (answers self) best_ix of
                  Inl e \<Rightarrow> Inl e
                | Inr ba \<Rightarrow>
                    (case py_index (Some qs) i of
                       Inl e \<Rightarrow> Inl e
                     | Inr oq \<Rightarrow>
                         get_answers_loop self qs similarity is
                           (response @ [\<lparr>orig_q = oq, best_q = bq, best_a = ba\<rparr>])))))"

definition get_answers ::
  "mm_kernel \<Rightarrow> QASearcher \<Rightarrow> string list \<Rightarrow> int \<Rightarrow> (error + answer list) \<times> QASearcher" where
  "get_answers mm self qs batch =
     (case cosine_similarity mm self qs batch of
        (Inl e, self1) \<Rightarrow> (Inl e, self1)
      | (Inr similarity, self1) \<Rightarrow>
          (get_answers_loop self1 qs similarity [0..<length similarity] [], self1))"

subsection \<open>Notions used to state the properties\<close>

text \<open>
  The contract of the external tokenizer and model under which the lists above are the
  tensors of the notebook: for a non-empty batch of \<open>B\<close> strings the mask has \<open>B\<close> rows,
  the model returns \<open>B\<close> slices, slice \<open>k\<close> has one vector of length \<open>hidden_size\<close> for
  every position of mask row \<open>k\<close>, and \<open>hidden_size\<close> is positive.
\<close>

definition wf_embedder :: "QAEmbedder \<Rightarrow> bool" where
  "wf_embedder e \<longleftrightarrow>
     0 < hidden_size e \<and>
     (\<forall>b. b \<noteq> [] \<longrightarrow>
        length (attention_mask (tokenizer e b)) = length b \<and>
        length (model e (tokenizer e b)) = length b \<and>
        (\<forall>k<length b.
           length (model e (tokenizer e b) ! k) = length (attention_mask (tokenizer e b) ! k) \<and>
           (\<forall>v\<in>set (model e (tokenizer e b) ! k). length v = hidden_size e)))"

text \<open>The dot product of two vectors.\<close>

definition dot :: "real list \<Rightarrow> real list \<Rightarrow> real" where
  "dot u v = sum_list (map2 (\<lambda>a b. a * b) u v)"

text \<open>
  What the loop of \<open>get_embeddings\<close> has concatenated when it ends, for a positive batch
  size \<open>b\<close>: the pooled chunks at 0, b, 2b, ... in this order.
\<close>

definition embedded :: "QAEmbedder \<Rightarrow> string list \<Rightarrow> nat \<Rightarrow> tensor" where
  "embedded self qs b =
     concat (map (batch_embeddings self qs b)
               (map (\<lambda>k. k * b) [0..<(length qs + b - 1) div b]))"

text \<open>The index \<open>argmax\<close> returns on a non-empty list.\<close>

definition first_max :: "'a::linorder list \<Rightarrow> nat" where
  "first_max xs = argmax_scan (hd xs) 0 1 (tl xs)"

text \<open>
  The matrix product without rounding, and what it means for a kernel to be accurate up
  to \<open>eps\<close> on vectors of \<open>n\<close> entries: on a row and a column of norm at most 1
  (normalised vectors) its entry differs from the exact one by at most \<open>eps\<close>. The
  product without rounding is accurate up to 0; a float32 kernel is accurate up to a
  bound that grows with \<open>n\<close>.
\<close>

definition exact_mm :: mm_kernel where
  "exact_mm a b i j = sum_list (map (\<lambda>k. a ! i ! k * b ! k ! j) [0..<length b])"

definition column :: "tensor \<Rightarrow> nat \<Rightarrow> real list" where
  "column b j = map (\<lambda>r. r ! j) b"

definition mm_accurate :: "mm_kernel \<Rightarrow> nat \<Rightarrow> real \<Rightarrow> bool" where
  "mm_accurate mm n eps \<longleftrightarrow>
     (\<forall>a b i j. length b = n \<longrightarrow> i < length a \<longrightarrow> length (a ! i) = n \<longrightarrow> j < ncols b \<longrightarrow>
        l2_norm (a ! i) \<le> 1 \<longrightarrow> l2_norm (column b j) \<le> 1 \<longrightarrow>
        \<bar>mm a b i j - exact_mm a b i j\<bar> \<le> eps)"

text \<open>
  Row \<open>i\<close> of the similarity matrix that \<open>cosine_similarity\<close> returns, for the normalised
  query embeddings \<open>qn\<close> and the stored tensor \<open>ct\<close> with \<open>n\<close> columns.
\<close>

definition sim_row :: "mm_kernel \<Rightarrow> tensor \<Rightarrow> tensor \<Rightarrow> nat \<Rightarrow> nat \<Rightarrow> real list" where
  "sim_row mm qn ct n i = map (\<lambda>j. mm qn ct i j) [0..<n]"



text \<open>The entry the loop of \<open>get_answers\<close> appends for query \<open>i\<close>.\<close>

definition best_answer ::
  "string list \<Rightarrow> string list \<Rightarrow> string list \<Rightarrow> tensor \<Rightarrow> nat \<Rightarrow> answer" where
  "best_answer qs cq ca sim i =
     \<lparr>orig_q = qs ! i, best_q = cq ! first_max (sim ! i), best_a = ca ! first_max (sim ! i)\<rparr>"

subsection \<open>A float32 matrix product\<close>

text \<open>
  IEEE binary32 rounding of a real in the normal range (24 significant bits, round to
  nearest, ties to even; magnitudes below 2^-126 are rounded on the subnormal grid,
  overflow is not represented). \<open>rne\<close> rounds to the nearest integer, ties to even.
\<close>

definition rne :: "real \<Rightarrow> int" where
  "rne y = (let f = \<lfloor>y\<rfloor> in
            if y - of_int f < 1 / 2 then f
            else if 1 / 2 < y - of_int f then f + 1
            else if even f then f else f + 1)"

definition pow2 :: "int \<Rightarrow> real" where
  "pow2 e = (if 0 \<le> e then 2 ^ nat e else 1 / 2 ^ nat (- e))"

definition float32 :: "real \<Rightarrow> real" where
  "float32 x = (if x = 0 then 0
                else let e = max \<lfloor>log 2 \<bar>x\<bar>\<rfloor> (- 126) - 23
                     in of_int (rne (x / pow2 e)) * pow2 e)"

text \<open>
  Two float32 dot products of a row and a column. The tensors of the notebook hold
  float32 values, so every operand is first taken to float32. The first product
  accumulates with fused multiply-add (one rounding per term), the second multiplies and
  adds separately (two roundings per term).
\<close>

fun fma_dot :: "real \<Rightarrow> real list \<Rightarrow> real list \<Rightarrow> real" where
  "fma_dot acc (x # u) (y # v) = fma_dot (float32 (acc + float32 x * float32 y)) u v"
| "fma_dot acc u v = acc"

fun mul_add_dot :: "real \<Rightarrow> real list \<Rightarrow> real list \<Rightarrow> real" where
  "mul_add_dot acc (x # u) (y # v) =
     mul_add_dot (float32 (acc + float32 (float32 x * float32 y))) u v"
| "mul_add_dot acc u v = acc"

text \<open>
  A kernel that computes the columns in vector lanes of four with fused multiply-add and
  the remaining columns one by one with separate multiplication and addition. It is one
  kernel of the kind the contract \<open>mm_accurate\<close> admits; which kernel runs depends on the
  torch build and the processor.
\<close>

definition float32_mm :: mm_kernel where
  "float32_mm a b i j =
     (if j < 4 * (ncols b div 4) then fma_dot 0 (a ! i) (column b j)
      else mul_add_dot 0 (a ! i) (column b j))"

subsection \<open>A small concrete embedder\<close>

text \<open>
  A tokenizer that gives every text a single token, whose id is the length of the text
  and which is padding exactly for the empty text, and a model with two dimensions that
  maps token id 1 to (4, 3), token id 2 to (5, 12), token id 3 to (308, 435) and every
  other id to (0, 10). The texts \<open>''a''\<close>, \<open>''c''\<close> and \<open>''z''\<close> thus all embed to (4, 3),
  of norm 5, \<open>''bb''\<close> and \<open>''qq''\<close> to (5, 12), of norm 13, and \<open>''xyz''\<close> to
  (308, 435), of norm 533.
\<close>

definition demo_embedder :: QAEmbedder where
  "demo_embedder =
     \<lparr>tokenizer = (\<lambda>b. \<lparr>input_ids = map (\<lambda>t. [length t]) b,
                           attention_mask = map (\<lambda>t. [if t = [] then 0 else 1]) b\<rparr>),
      model = (\<lambda>enc. map (map (\<lambda>n. if n = 1 then [4, 3] else if n = 2 then [5, 12]
                                      else if n = 3 then [308, 435] else [0, 10]))
                         (input_ids enc)),
      hidden_size = 2\<rparr>"

definition demo_searcher :: QASearcher where
  "demo_searcher =
     snd (set_context_qa (QASearcher_init demo_embedder)
            [''bb'', ''a'', ''c''] [''B'', ''A'', ''C''])"

text \<open>An earlier context of the same searcher, replaced by the one above.\<close>

definition demo_searcher_old :: QASearcher where
  "demo_searcher_old =
     snd (set_context_qa (QASearcher_init demo_embedder) [''a''] [''old''])"

text \<open>A context of five identical questions with five different answers.\<close>

definition demo_searcher_five :: QASearcher where
  "demo_searcher_five =
     snd (set_context_qa (QASearcher_init demo_embedder)
            [''a'', ''a'', ''a'', ''a'', ''a''] [''A0'', ''A1'', ''A2'', ''A3'', ''A4''])"


section \<open>Properties\<close>

subsection \<open>The embedder: chunks, shapes and success\<close>

lemma get_embeddings_loop_eq:
  "get_embeddings_loop self qs b is acc = acc @ map (batch_embeddings self qs b) is"
  by (induction "is" arbitrary: acc) simp_all

lemma chunks_concat:
  "concat (map (\<lambda>i. py_slice qs i (i + b)) (map (\<lambda>k. k * b) [0..<m])) = take (m * b) qs"
proof (induction m)
  case 0
  then show ?case by simp
next
  case (Suc m)
  have "take (m * b + b) qs = take (m * b) qs @ take b (drop (m * b) qs)"
    by (rule take_add)
  then have "take (Suc m * b) qs = take (m * b) qs @ take b (drop (m * b) qs)"
    by (simp only: mult_Suc add.commute)
  with Suc show ?case by (simp add: py_slice_def)
qed

lemma range_covers:
  assumes "0 < b"
  shows "n \<le> ((n + b - 1) div b) * (b::nat)"
proof -
  have "n + b - 1 = ((n + b - 1) div b) * b + (n + b - 1) mod b" by simp
  moreover have "(n + b - 1) mod b < b" using assms by simp
  ultimately show ?thesis by linarith
qed

lemma range_nonempty:
  assumes "0 < b" "0 < n"
  shows "0 < (n + b - 1) div (b::nat)"
  using assms by (simp add: div_greater_zero_iff)

lemma range_below:
  assumes "0 < b" "k < (n + b - 1) div (b::nat)"
  shows "k * b < n"
proof -
  have "Suc k \<le> (n + b - 1) div b" using assms by simp
  then have "Suc k * b \<le> ((n + b - 1) div b) * b" by (rule mult_le_mono1)
  also have "\<dots> \<le> n + b - 1" by simp
  finally show ?thesis using assms by simp
qed

lemma length_mean_pooling:
  "length (mean_pooling n t m) = min (length t) (length m)"
  by (simp add: mean_pooling_def)

lemma row_mean_pooling:
  "r \<in> set (mean_pooling n t m) \<Longrightarrow> length r = n"
  by (auto simp: mean_pooling_def pool_row_def)

lemma length_batch_embeddings:
  assumes "wf_embedder self" "i < length qs" "0 < b"
  shows "length (batch_embeddings self qs b i) = length (py_slice qs i (i + b))"
proof -
  have "py_slice qs i (i + b) \<noteq> []" using assms by (simp add: py_slice_def)
  with assms(1) show ?thesis
    by (simp add: batch_embeddings_def Let_def length_mean_pooling wf_embedder_def)
qed

lemma row_batch_embeddings:
  "r \<in> set (batch_embeddings self qs b i) \<Longrightarrow> length r = hidden_size self"
  by (auto simp: batch_embeddings_def Let_def dest: row_mean_pooling)

lemma get_embeddings_ok:
  assumes "0 < batch" "qs \<noteq> []"
  shows "get_embeddings self qs batch = Inr (embedded self qs (nat batch))"
proof -
  have "0 < (length qs + nat batch - 1) div nat batch"
    using assms by (intro range_nonempty) simp_all
  then have "[0..<(length qs + nat batch - 1) div nat batch] \<noteq> []" by simp
  then show ?thesis using assms
    by (simp add: get_embeddings_def py_range_def torch_cat_def get_embeddings_loop_eq embedded_def)
qed

lemma length_concat_eq:
  assumes "\<And>x. x \<in> set xs \<Longrightarrow> length (f x) = length (g x)"
  shows "length (concat (map f xs)) = length (concat (map g xs))"
  using assms by (induction xs) simp_all

lemma length_embedded:
  assumes "wf_embedder self" "0 < b"
  shows "length (embedded self qs b) = length qs"
proof -
  let ?m = "(length qs + b - 1) div b"
  have "length (embedded self qs b) =
        length (concat (map (\<lambda>i. py_slice qs i (i + b)) (map (\<lambda>k. k * b) [0..<?m])))"
    unfolding embedded_def
  proof (rule length_concat_eq)
    fix i assume "i \<in> set (map (\<lambda>k. k * b) [0..<?m])"
    then obtain k where "k < ?m" "i = k * b" by auto
    then have "i < length qs" using range_below[OF assms(2)] by simp
    then show "length (batch_embeddings self qs b i) = length (py_slice qs i (i + b))"
      using assms(2) by (rule length_batch_embeddings[OF assms(1)])
  qed
  also have "\<dots> = length (take (?m * b) qs)" by (simp only: chunks_concat)
  also have "\<dots> = length qs" using range_covers[OF assms(2), of "length qs"] by simp
  finally show ?thesis .
qed

lemma row_embedded:
  "r \<in> set (embedded self qs b) \<Longrightarrow> length r = hidden_size self"
  by (auto simp: embedded_def dest: row_batch_embeddings)

subsection \<open>The first maximal entry\<close>

lemma argmax_scan_spec:
  assumes "length pre = i" "bi < i" "pre ! bi = best"
    and "\<forall>k<i. pre ! k \<le> best" "\<forall>k<bi. pre ! k < best"
  shows "argmax_scan best bi i xs < length (pre @ xs) \<and>
         (\<forall>k<length (pre @ xs). (pre @ xs) ! k \<le> (pre @ xs) ! argmax_scan best bi i xs) \<and>
         (\<forall>k<argmax_scan best bi i xs. (pre @ xs) ! k < (pre @ xs) ! argmax_scan best bi i xs)"
  using assms
proof (induction xs arbitrary: pre i bi best)
  case Nil
  then show ?case by simp
next
  case (Cons x xs)
  show ?case
  proof (cases "best < x")
    case True
    have "argmax_scan x i (Suc i) xs < length ((pre @ [x]) @ xs) \<and>
         (\<forall>k<length ((pre @ [x]) @ xs). ((pre @ [x]) @ xs) ! k \<le> ((pre @ [x]) @ xs) ! argmax_scan x i (Suc i) xs) \<and>
         (\<forall>k<argmax_scan x i (Suc i) xs. ((pre @ [x]) @ xs) ! k < ((pre @ [x]) @ xs) ! argmax_scan x i (Suc i) xs)"
    proof (rule Cons.IH)
      show "length (pre @ [x]) = Suc i" using Cons.prems by simp
      show "i < Suc i" by simp
      show "(pre @ [x]) ! i = x" using Cons.prems by (simp add: nth_append)
      show "\<forall>k<Suc i. (pre @ [x]) ! k \<le> x"
        using Cons.prems True by (auto simp: nth_append less_Suc_eq intro: less_imp_le le_less_trans)
      show "\<forall>k<i. (pre @ [x]) ! k < x"
        using Cons.prems True by (auto simp: nth_append intro: le_less_trans)
    qed
    with True show ?thesis by simp
  next
    case False
    have "argmax_scan best bi (Suc i) xs < length ((pre @ [x]) @ xs) \<and>
         (\<forall>k<length ((pre @ [x]) @ xs). ((pre @ [x]) @ xs) ! k \<le> ((pre @ [x]) @ xs) ! argmax_scan best bi (Suc i) xs) \<and>
         (\<forall>k<argmax_scan best bi (Suc i) xs. ((pre @ [x]) @ xs) ! k < ((pre @ [x]) @ xs) ! argmax_scan best bi (Suc i) xs)"
    proof (rule Cons.IH)
      show "length (pre @ [x]) = Suc i" using Cons.prems by simp
      show "bi < Suc i" using Cons.prems by simp
      show "(pre @ [x]) ! bi = best" using Cons.prems by (simp add: nth_append)
      show "\<forall>k<Suc i. (pre @ [x]) ! k \<le> best"
        using Cons.prems False by (auto simp: nth_append less_Suc_eq)
      show "\<forall>k<bi. (pre @ [x]) ! k < best"
        using Cons.prems by (auto simp: nth_append)
    qed
    with False show ?thesis by simp
  qed
qed

lemma argmax_first_max:
  "xs \<noteq> [] \<Longrightarrow> argmax xs = Inr (first_max xs)"
  by (cases xs) (simp_all add: argmax_def first_max_def)

lemma first_max_spec:
  assumes "xs \<noteq> []"
  shows "first_max xs < length xs"
    and "\<And>k. k < length xs \<Longrightarrow> xs ! k \<le> xs ! first_max xs"
    and "\<And>k. k < first_max xs \<Longrightarrow> xs ! k < xs ! first_max xs"
proof -
  obtain x rest where xs: "xs = x # rest" using assms by (cases xs) auto
  have *: "argmax_scan x 0 1 rest < length ([x] @ rest) \<and>
         (\<forall>k<length ([x] @ rest). ([x] @ rest) ! k \<le> ([x] @ rest) ! argmax_scan x 0 1 rest) \<and>
         (\<forall>k<argmax_scan x 0 1 rest. ([x] @ rest) ! k < ([x] @ rest) ! argmax_scan x 0 1 rest)"
    by (rule argmax_scan_spec) simp_all
  show "first_max xs < length xs" using * by (simp add: xs first_max_def)
  show "\<And>k. k < length xs \<Longrightarrow> xs ! k \<le> xs ! first_max xs"
    using * by (simp add: xs first_max_def)
  show "\<And>k. k < first_max xs \<Longrightarrow> xs ! k < xs ! first_max xs"
    using * by (simp add: xs first_max_def)
qed

subsection \<open>The similarity matrix as dot products\<close>

lemma sum_list_map2_nth:
  assumes "length u = n" "length v = n"
  shows "sum_list (map2 f u v) = sum_list (map (\<lambda>k. f (u ! k) (v ! k)) [0..<n])"
proof -
  have "map2 f u v = map (\<lambda>k. f (u ! k) (v ! k)) [0..<n]"
    using assms by (intro nth_equalityI) simp_all
  then show ?thesis by simp
qed

lemma length_transpose01: "length (transpose01 n cs) = n"
  by (simp add: transpose01_def)

lemma ncols_transpose01: "0 < n \<Longrightarrow> ncols (transpose01 n cs) = length cs"
  by (simp add: transpose01_def ncols_def upt_conv_Cons split: list.splits)

lemma torch_mm_ok:
  assumes "\<forall>r\<in>set a. length r = length b"
  shows "torch_mm mm a (Some b) =
         Inr (map (\<lambda>i. sim_row mm a b (ncols b) i) [0..<length a])"
  using assms by (simp add: torch_mm_def list_all_iff sim_row_def)

lemma exact_mm_transpose:
  assumes "length r = n" "length (cs ! j) = n" "j < length cs" "a ! i = r"
  shows "exact_mm a (transpose01 n cs) i j = dot r (cs ! j)"
proof -
  have "dot r (cs ! j) = sum_list (map (\<lambda>k. r ! k * cs ! j ! k) [0..<n])"
    unfolding dot_def using assms(1,2) by (rule sum_list_map2_nth)
  also have "\<dots> = sum_list (map (\<lambda>k. r ! k * transpose01 n cs ! k ! j) [0..<n])"
    using assms(3) by (intro arg_cong[where f = sum_list] map_cong) (simp_all add: transpose01_def)
  finally show ?thesis by (simp add: exact_mm_def length_transpose01 assms(4))
qed

lemma column_transpose01:
  assumes "j < length cs" "length (cs ! j) = n"
  shows "column (transpose01 n cs) j = cs ! j"
  using assms by (intro nth_equalityI) (simp_all add: column_def transpose01_def)

lemma row_normalize:
  "r \<in> set (normalize_l2 x) \<Longrightarrow> \<exists>v\<in>set x. length r = length v"
  by (auto simp: normalize_l2_def normalize_row_def)

lemma length_normalize: "length (normalize_l2 x) = length x"
  by (simp add: normalize_l2_def)

lemma rows_normalize_embedded:
  "r \<in> set (normalize_l2 (embedded e qs b)) \<Longrightarrow> length r = hidden_size e"
  by (auto dest!: row_normalize dest: row_embedded)

subsection \<open>Setting the context and answering\<close>

lemma get_answers_loop_ok:
  assumes "questions self = Some cq" "answers self = Some ca"
    and "\<And>i. i \<in> set is \<Longrightarrow> i < length qs \<and> sim ! i \<noteq> [] \<and>
           first_max (sim ! i) < length cq \<and> first_max (sim ! i) < length ca"
  shows "get_answers_loop self qs sim is acc = Inr (acc @ map (best_answer qs cq ca sim) is)"
  using assms(3)
proof (induction "is" arbitrary: acc)
  case Nil
  then show ?case by simp
next
  case (Cons i "is")
  have i: "i < length qs" "sim ! i \<noteq> []" "first_max (sim ! i) < length cq"
    "first_max (sim ! i) < length ca"
    using Cons.prems[of i] by simp_all
  have rest: "get_answers_loop self qs sim is (acc @ [best_answer qs cq ca sim i]) =
      Inr ((acc @ [best_answer qs cq ca sim i]) @ map (best_answer qs cq ca sim) is)"
    by (rule Cons.IH) (simp add: Cons.prems)
  show ?case
    using i rest assms(1,2)
    by (simp add: argmax_first_max py_index_def best_answer_def)
qed

lemma set_context_qa_ok:
  assumes "qs \<noteq> []"
  shows "set_context_qa self qs as =
         (Inr (), self\<lparr>answers := Some as, questions := Some qs,
            question_embeddings :=
              Some (transpose01 (hidden_size (embedder self))
                     (normalize_l2 (embedded (embedder self) qs 32)))\<rparr>)"
  using assms by (simp add: set_context_qa_def get_q_embeddings_def get_embeddings_ok Let_def)

lemma set_context_qa_empty:
  "set_context_qa self [] as = (Inl RuntimeError, self\<lparr>answers := Some as, questions := Some []\<rparr>)"
  by (simp add: set_context_qa_def get_q_embeddings_def get_embeddings_def py_range_def
      torch_cat_def Let_def)

lemma set_context_qa_success_iff:
  "fst (set_context_qa self qs as) = Inr () \<longleftrightarrow> qs \<noteq> []"
  by (cases "qs = []") (simp_all add: set_context_qa_ok set_context_qa_empty)

lemma cosine_similarity_ok:
  assumes wf: "wf_embedder (embedder self)"
    and emb: "question_embeddings self =
       Some (transpose01 (hidden_size (embedder self)) (normalize_l2 (embedded (embedder self) cq cb)))"
    and cb: "0 < cb" and qs: "qs \<noteq> []" and batch: "0 < batch"
  shows "cosine_similarity mm self qs batch =
     (Inr (map (sim_row mm (normalize_l2 (embedded (embedder self) qs (nat batch)))
                  (transpose01 (hidden_size (embedder self))
                     (normalize_l2 (embedded (embedder self) cq cb)))
                  (length cq))
             [0..<length qs]), self)"
proof -
  let ?e = "embedder self"
  let ?qn = "normalize_l2 (embedded ?e qs (nat batch))"
  let ?cn = "normalize_l2 (embedded ?e cq cb)"
  let ?ct = "transpose01 (hidden_size ?e) ?cn"
  have n: "0 < hidden_size ?e" using wf by (simp add: wf_embedder_def)
  have lcn: "length ?cn = length cq"
    using wf cb by (simp add: length_normalize length_embedded)
  have nc: "ncols ?ct = length cq" using n lcn by (simp add: ncols_transpose01)
  have "\<forall>r\<in>set ?qn. length r = length ?ct"
    by (auto dest: rows_normalize_embedded simp: length_transpose01)
  then have mm: "torch_mm mm ?qn (Some ?ct) =
         Inr (map (\<lambda>i. sim_row mm ?qn ?ct (ncols ?ct) i) [0..<length ?qn])"
    by (rule torch_mm_ok)
  have len: "length ?qn = length qs"
    using wf batch by (simp add: length_normalize length_embedded)
  from mm show ?thesis
    using qs batch by (simp add: cosine_similarity_def get_embeddings_ok emb nc len)
qed

lemma get_answers_ok:
  assumes wf: "wf_embedder (embedder self)"
    and q: "questions self = Some cq" and a: "answers self = Some ca"
    and emb: "question_embeddings self =
       Some (transpose01 (hidden_size (embedder self)) (normalize_l2 (embedded (embedder self) cq cb)))"
    and cb: "0 < cb" and cq: "cq \<noteq> []" and ca: "length cq \<le> length ca"
    and qs: "qs \<noteq> []" and batch: "0 < batch"
  shows "get_answers mm self qs batch =
     (Inr (map (\<lambda>i. \<lparr>orig_q = qs ! i,
                     best_q = cq ! first_max (sim_row mm (normalize_l2 (embedded (embedder self) qs (nat batch)))
                            (transpose01 (hidden_size (embedder self))
                               (normalize_l2 (embedded (embedder self) cq cb))) (length cq) i),
                     best_a = ca ! first_max (sim_row mm (normalize_l2 (embedded (embedder self) qs (nat batch)))
                            (transpose01 (hidden_size (embedder self))
                               (normalize_l2 (embedded (embedder self) cq cb))) (length cq) i)\<rparr>)
             [0..<length qs]), self)"
proof -
  let ?e = "embedder self"
  let ?qn = "normalize_l2 (embedded ?e qs (nat batch))"
  let ?ct = "transpose01 (hidden_size ?e) (normalize_l2 (embedded ?e cq cb))"
  let ?row = "sim_row mm ?qn ?ct (length cq)"
  let ?sim = "map ?row [0..<length qs]"
  have cs: "cosine_similarity mm self qs batch = (Inr ?sim, self)"
    using wf emb cb qs batch by (rule cosine_similarity_ok)
  have row: "length (?row i) = length cq" for i
    by (simp add: sim_row_def)
  have loop: "get_answers_loop self qs ?sim [0..<length qs] [] =
      Inr ([] @ map (best_answer qs cq ca ?sim) [0..<length qs])"
  proof (rule get_answers_loop_ok[OF q a])
    fix i assume "i \<in> set [0..<length qs]"
    then have i: "i < length qs" by simp
    then have simi: "?sim ! i = ?row i" by simp
    have ne: "?row i \<noteq> []" using row[of i] cq by (cases "?row i") auto
    have "first_max (?row i) < length cq"
      using first_max_spec(1)[OF ne] row[of i] by simp
    with i simi ne ca
    show "i < length qs \<and> ?sim ! i \<noteq> [] \<and> first_max (?sim ! i) < length cq \<and>
        first_max (?sim ! i) < length ca"
      by simp
  qed
  have "map (best_answer qs cq ca ?sim) [0..<length qs] =
      map (\<lambda>i. \<lparr>orig_q = qs ! i, best_q = cq ! first_max (?row i),
               best_a = ca ! first_max (?row i)\<rparr>) [0..<length qs]"
    by (intro map_cong) (simp_all add: best_answer_def)
  with loop cs show ?thesis
    by (simp add: get_answers_def)
qed

lemma set_context_qa_result:
  assumes "set_context_qa s0 cq ca = (Inr (), s)"
  shows "cq \<noteq> []"
    and "s = s0\<lparr>answers := Some ca, questions := Some cq,
            question_embeddings :=
              Some (transpose01 (hidden_size (embedder s0))
                     (normalize_l2 (embedded (embedder s0) cq 32)))\<rparr>"
proof -
  show ne: "cq \<noteq> []"
    using assms by (auto simp: set_context_qa_empty)
  show "s = s0\<lparr>answers := Some ca, questions := Some cq,
            question_embeddings :=
              Some (transpose01 (hidden_size (embedder s0))
                     (normalize_l2 (embedded (embedder s0) cq 32)))\<rparr>"
    using assms set_context_qa_ok[OF ne, of s0 ca] by simp
qed

lemma get_embeddings_cases:
  "get_embeddings e qs batch =
     (if batch = 0 then Inl ValueError
      else if batch < 0 \<or> qs = [] then Inl RuntimeError
      else Inr (embedded e qs (nat batch)))"
proof -
  have "get_embeddings e [] batch = Inl RuntimeError" if "0 < batch"
    using that by (simp add: get_embeddings_def py_range_def torch_cat_def)
  moreover have "get_embeddings e qs batch = Inl RuntimeError" if "batch < 0"
    using that by (simp add: get_embeddings_def py_range_def torch_cat_def)
  moreover have "get_embeddings e qs 0 = Inl ValueError"
    by (simp add: get_embeddings_def py_range_def)
  ultimately show ?thesis
    using get_embeddings_ok[of batch qs e] by (cases "batch = 0"; cases "batch < 0"; cases "qs = []") auto
qed

lemma snd_get_answers: "snd (get_answers mm self qs batch) = self"
  by (simp add: get_answers_def cosine_similarity_def split: sum.splits prod.splits)

subsection \<open>Which records and which exceptions the loop can produce\<close>

lemma get_answers_loop_sound:
  assumes "get_answers_loop self qs sim is acc = Inr rs"
    and "questions self = Some cq" and "answers self = Some ca"
    and "r \<in> set rs"
  shows "r \<in> set acc \<or> (\<exists>j. j < length cq \<and> j < length ca \<and> best_q r = cq ! j \<and> best_a r = ca ! j)"
  using assms(1,4)
proof (induction "is" arbitrary: acc)
  case Nil
  then show ?case by simp
next
  case (Cons i "is")
  from Cons.prems(1) obtain j oq where
    j: "j < length cq" "j < length ca" and
    rest: "get_answers_loop self qs sim is
             (acc @ [\<lparr>orig_q = oq, best_q = cq ! j, best_a = ca ! j\<rparr>]) = Inr rs"
    using assms(2,3)
    by (auto simp: py_index_def split: sum.splits if_splits)
  from Cons.IH[OF rest Cons.prems(2)] j show ?case by auto
qed

lemma get_answers_loop_questions_empty:
  assumes "questions self = Some []" "is \<noteq> []"
  shows "\<exists>e. get_answers_loop self qs sim is acc = Inl e \<and> (e = TypeError \<or> e = IndexError)"
proof -
  obtain i rest where "is = i # rest" using assms(2) by (cases "is") auto
  then show ?thesis using assms(1)
    by (auto simp: py_index_def argmax_def split: sum.splits list.splits)
qed

lemma get_answers_loop_error:
  "get_answers_loop self qs sim is acc = Inl e \<Longrightarrow> e = TypeError \<or> e = IndexError"
  by (induction "is" arbitrary: acc)
     (auto simp: py_index_def argmax_def split: sum.splits list.splits option.splits if_splits)

lemma torch_mm_error:
  "torch_mm mm a b = Inl e \<Longrightarrow> e = TypeError \<or> e = RuntimeError"
  by (auto simp: torch_mm_def split: option.splits if_splits)

lemma get_embeddings_error:
  "get_embeddings s qs batch = Inl e \<Longrightarrow> e = ValueError \<or> e = RuntimeError"
  by (auto simp: get_embeddings_cases split: if_splits)

lemma get_answers_error:
  assumes "fst (get_answers mm self qs batch) = Inl e"
  shows "e = ValueError \<or> e = RuntimeError \<or> e = TypeError \<or> e = IndexError"
  using assms
  by (auto simp: get_answers_def cosine_similarity_def split: sum.splits prod.splits
      dest: get_answers_loop_error torch_mm_error get_embeddings_error)

lemma length_torch_mm:
  "torch_mm mm a b = Inr c \<Longrightarrow> length c = length a"
  by (auto simp: torch_mm_def split: option.splits if_splits)

subsection \<open>Divisors of pooling and normalisation\<close>

lemma pool_denominator_pos: "0 < pool_denominator ms"
  by (simp add: pool_denominator_def clamp_min_def max_def)

lemma normalize_denominator_pos: "0 < normalize_denominator v"
  by (simp add: normalize_denominator_def max_def)

lemma l2_norm_zero_iff: "l2_norm v = 0 \<longleftrightarrow> (\<forall>a\<in>set v. a = 0)"
proof -
  have "sum_list (map (\<lambda>a. a\<^sup>2) v) = 0 \<longleftrightarrow> (\<forall>x\<in>set (map (\<lambda>a. a\<^sup>2) v). x = 0)"
    by (rule sum_list_nonneg_eq_0_iff) auto
  then show ?thesis by (simp add: l2_norm_def)
qed

lemma normalize_row_zero_norm:
  assumes "l2_norm v = 0"
  shows "normalize_row v = v"
proof -
  have "\<forall>a\<in>set v. a = 0" using assms by (simp add: l2_norm_zero_iff)
  then have "map (\<lambda>a. a / normalize_denominator v) v = map (\<lambda>a. a) v"
    by (intro map_cong) auto
  then show ?thesis by (simp add: normalize_row_def)
qed

lemma sum_list_all_zero:
  "\<forall>x\<in>set xs. f x = (0::real) \<Longrightarrow> sum_list (map f xs) = 0"
  by (induction xs) simp_all

lemma masked_sum_all_padding:
  assumes "\<forall>m\<in>set ms. m = 0"
  shows "masked_sum toks ms d = 0"
proof -
  have "\<forall>p\<in>set (zip toks ms). (case p of (v, m) \<Rightarrow> v ! d * real_of_int m) = 0"
    using assms by (auto dest: set_zip_rightD)
  then have "sum_list (map (\<lambda>(v, m). v ! d * real_of_int m) (zip toks ms)) = 0"
    by (rule sum_list_all_zero)
  then show ?thesis by (simp add: masked_sum_def)
qed

lemma pool_row_all_padding:
  assumes "\<forall>m\<in>set ms. m = 0"
  shows "pool_row n toks ms = replicate n 0"
  by (simp add: pool_row_def masked_sum_all_padding[OF assms] map_replicate_const)

lemma normalize_row_zeros: "normalize_row (replicate n 0) = replicate n 0"
  by (rule normalize_row_zero_norm) (simp add: l2_norm_zero_iff)

lemma normalized_rows_of_embeddings:
  assumes "get_embeddings e qs batch = Inr emb" "r \<in> set (normalize_l2 emb)"
  shows "\<exists>i toks ms. i < length qs \<and>
           (toks, ms) \<in> set (zip (model e (tokenizer e (py_slice qs i (i + nat batch))))
                               (attention_mask (tokenizer e (py_slice qs i (i + nat batch))))) \<and>
           r = normalize_row (pool_row (hidden_size e) toks ms)"
proof -
  from assms(1) have b: "0 < batch" and emb: "emb = embedded e qs (nat batch)"
    by (auto simp: get_embeddings_cases split: if_splits)
  from assms(2) obtain p where p: "p \<in> set emb" "r = normalize_row p"
    by (auto simp: normalize_l2_def)
  from p(1) obtain k where k: "k < (length qs + nat batch - 1) div nat batch"
    and pk: "p \<in> set (batch_embeddings e qs (nat batch) (k * nat batch))"
    by (auto simp: emb embedded_def)
  have i: "k * nat batch < length qs" using range_below[OF _ k] b by simp
  from pk obtain toks ms where
    "(toks, ms) \<in> set (zip (model e (tokenizer e (py_slice qs (k * nat batch) (k * nat batch + nat batch))))
                          (attention_mask (tokenizer e (py_slice qs (k * nat batch) (k * nat batch + nat batch)))))"
    "p = pool_row (hidden_size e) toks ms"
    by (auto simp: batch_embeddings_def Let_def mean_pooling_def)
  with i p(2) show ?thesis by blast
qed

subsection \<open>Norms, dot products and the Cauchy-Schwarz inequality\<close>

lemma sum_squares_nonneg: "0 \<le> sum_list (map (\<lambda>a::real. a\<^sup>2) v)"
  by (rule sum_list_nonneg) auto

lemma l2_norm_nonneg: "0 \<le> l2_norm v"
  by (simp add: l2_norm_def sum_squares_nonneg)

lemma l2_norm_power2: "(l2_norm v)\<^sup>2 = sum_list (map (\<lambda>a. a\<^sup>2) v)"
  by (simp add: l2_norm_def sum_squares_nonneg)







lemma l2_norm_scaled:
  assumes "0 < d"
  shows "l2_norm (map (\<lambda>a. a / d) v) = l2_norm v / d"
proof -
  have "sum_list (map (\<lambda>a. (a / d)\<^sup>2) v) = sum_list (map (\<lambda>a. a\<^sup>2) v) / d\<^sup>2"
    by (induction v) (simp_all add: power_divide add_divide_distrib)
  then show ?thesis
    using assms by (simp add: l2_norm_def comp_def real_sqrt_divide)
qed

lemma l2_norm_normalize_row: "l2_norm (normalize_row v) = l2_norm v / normalize_denominator v"
  unfolding normalize_row_def by (rule l2_norm_scaled) (rule normalize_denominator_pos)

lemma l2_norm_normalize_row_le: "l2_norm (normalize_row v) \<le> 1"
proof -
  have "l2_norm v \<le> normalize_denominator v" by (simp add: normalize_denominator_def)
  then show ?thesis
    using normalize_denominator_pos[of v] by (simp add: l2_norm_normalize_row)
qed



lemma normalize_l2_nth: "k < length x \<Longrightarrow> normalize_l2 x ! k = normalize_row (x ! k)"
  by (simp add: normalize_l2_def)

lemma normalize_row_formula:
  "normalize_row v = map (\<lambda>a. a / max (l2_norm v) (1 / 10 ^ 12)) v"
  by (simp add: normalize_row_def normalize_denominator_def)

subsection \<open>Embeddings that do not depend on the batch\<close>




subsection \<open>Accuracy of the similarity entries\<close>


lemma set_context_qa_fields:
  assumes "set_context_qa s0 cq ca = (Inr (), s)"
  shows "embedder s = embedder s0" "questions s = Some cq" "answers s = Some ca"
    "question_embeddings s =
       Some (transpose01 (hidden_size (embedder s))
               (normalize_l2 (embedded (embedder s) cq 32)))"
  using set_context_qa_result(2)[OF assms] by simp_all

lemma sim_entry_accurate:
  assumes acc: "mm_accurate mm n eps"
    and i: "i < length qn" and k: "k < length cn" and n: "0 < n"
    and qrow: "length (qn ! i) = n" and crow: "length (cn ! k) = n"
    and qnorm: "l2_norm (qn ! i) \<le> 1" and cnorm: "l2_norm (cn ! k) \<le> 1"
  shows "\<bar>mm qn (transpose01 n cn) i k - dot (qn ! i) (cn ! k)\<bar> \<le> eps"
proof -
  have col: "column (transpose01 n cn) k = cn ! k"
    using k crow by (rule column_transpose01)
  have ex: "exact_mm qn (transpose01 n cn) i k = dot (qn ! i) (cn ! k)"
    using qrow crow k by (rule exact_mm_transpose) simp
  have "\<bar>mm qn (transpose01 n cn) i k - exact_mm qn (transpose01 n cn) i k\<bar> \<le> eps"
    using acc i qrow k n qnorm cnorm
    by (simp add: mm_accurate_def length_transpose01 ncols_transpose01 col)
  then show ?thesis by (simp add: ex)
qed

subsection \<open>The float32 rounding, evaluated and bounded\<close>

lemma pow2_pos: "0 < pow2 e"
  by (simp add: pow2_def)

lemma pow2_powr: "pow2 e = 2 powr (of_int e)"
  by (simp add: pow2_def powr_int)

lemma floor_log2_eq:
  assumes "pow2 k \<le> x" "x < pow2 (k + 1)"
  shows "\<lfloor>log 2 x\<rfloor> = k"
proof -
  have "0 < x" using assms(1) pow2_pos[of k] by linarith
  then show ?thesis
    using assms by (simp add: floor_log_eq_powr_iff pow2_powr)
qed

lemma float32_eval:
  assumes "pow2 k \<le> \<bar>x\<bar>" "\<bar>x\<bar> < pow2 (k + 1)" "- 126 \<le> k"
  shows "float32 x = of_int (rne (x / pow2 (k - 23))) * pow2 (k - 23)"
proof -
  have "x \<noteq> 0" using assms(1) pow2_pos[of k] by auto
  moreover have "\<lfloor>log 2 \<bar>x\<bar>\<rfloor> = k" using assms(1,2) by (rule floor_log2_eq)
  ultimately show ?thesis using assms(3) by (simp add: float32_def Let_def max_def)
qed

lemma f32_4_5: "float32 (4 / 5) = 13421773 / 16777216"
  by (subst float32_eval[of "-1"]) (simp_all add: pow2_def rne_def)

lemma f32_3_5: "float32 (3 / 5) = 10066330 / 16777216"
  by (subst float32_eval[of "-1"]) (simp_all add: pow2_def rne_def)

lemma f32_5_13: "float32 (5 / 13) = 12905551 / 33554432"
  by (subst float32_eval[of "-2"]) (simp_all add: pow2_def rne_def)

lemma f32_12_13: "float32 (12 / 13) = 15486661 / 16777216"
  by (subst float32_eval[of "-1"]) (simp_all add: pow2_def rne_def)

lemma f32_prod1: "float32 (173215375961923 / 562949953421312) = 10324441 / 33554432"
  by (subst float32_eval[of "-2"]) (simp_all add: pow2_def rne_def)

lemma f32_prod1_again: "float32 (10324441 / 33554432) = 10324441 / 33554432"
  by (subst float32_eval[of "-2"]) (simp_all add: pow2_def rne_def)

lemma f32_prod2: "float32 (77946920112065 / 140737488355328) = 9291997 / 16777216"
  by (subst float32_eval[of "-1"]) (simp_all add: pow2_def rne_def)

lemma f32_sum_fused: "float32 (121250764296129 / 140737488355328) = 14454217 / 16777216"
  by (subst float32_eval[of "-1"]) (simp_all add: pow2_def rne_def)

lemma f32_sum_separate: "float32 (28908435 / 33554432) = 14454218 / 16777216"
  by (subst float32_eval[of "-1"]) (simp_all add: pow2_def rne_def)

lemma fma_dot_demo: "fma_dot 0 [5 / 13, 12 / 13] [4 / 5, 3 / 5] = 14454217 / 16777216"
  by (simp add: f32_5_13 f32_12_13 f32_4_5 f32_3_5 f32_prod1 f32_sum_fused)

lemma mul_add_dot_demo: "mul_add_dot 0 [5 / 13, 12 / 13] [4 / 5, 3 / 5] = 14454218 / 16777216"
  by (simp add: f32_5_13 f32_12_13 f32_4_5 f32_3_5 f32_prod1 f32_prod1_again f32_prod2
      f32_sum_separate)

lemma f32_sq1: "float32 (180143990463529 / 281474976710656) = 10737419 / 16777216"
  by (subst float32_eval[of "-1"]) (simp_all add: pow2_def rne_def)

lemma f32_sq1_again: "float32 (10737419 / 16777216) = 10737419 / 16777216"
  by (subst float32_eval[of "-1"]) (simp_all add: pow2_def rne_def)

lemma f32_sq2: "float32 (25332749917225 / 70368744177664) = 3019899 / 8388608"
  by (subst float32_eval[of "-2"]) (simp_all add: pow2_def rne_def)

lemma f32_self_separate: "float32 (16777217 / 16777216) = 1"
  by (subst float32_eval[of 0]) (simp_all add: pow2_def rne_def)

lemma mul_add_dot_self: "mul_add_dot 0 [4 / 5, 3 / 5] [4 / 5, 3 / 5] = 1"
  by (simp add: f32_4_5 f32_3_5 f32_sq1 f32_sq1_again f32_sq2 f32_self_separate)

lemma mul_add_dot_demo2: "mul_add_dot 0 [4 / 5, 3 / 5] [5 / 13, 12 / 13] = 14454218 / 16777216"
  by (simp add: f32_5_13 f32_12_13 f32_4_5 f32_3_5 f32_prod1 f32_prod1_again f32_prod2
      f32_sum_separate)










lemma rne_error: "\<bar>of_int (rne y) - y\<bar> \<le> 1 / 2"
proof -
  have "of_int \<lfloor>y\<rfloor> \<le> y" "y < of_int \<lfloor>y\<rfloor> + 1" by linarith+
  then show ?thesis by (auto simp: rne_def Let_def)
qed

lemma pow2_mono: "e \<le> e' \<Longrightarrow> pow2 e \<le> pow2 e'"
  by (simp add: pow2_powr)

lemma float32_error:
  assumes "\<bar>x\<bar> \<le> 16"
  shows "\<bar>float32 x - x\<bar> \<le> 1 / 2 ^ 20"
proof (cases "x = 0")
  case True
  then show ?thesis by (simp add: float32_def)
next
  case False
  define e where "e = max \<lfloor>log 2 \<bar>x\<bar>\<rfloor> (- 126) - 23"
  have pos: "0 < pow2 e" by (rule pow2_pos)
  have "log 2 \<bar>x\<bar> \<le> log 2 16" using assms False by simp
  moreover have "log 2 16 = 4"
  proof -
    have "log 2 (2 ^ 4) = 4" by (simp only: log_pow_cancel)
    then show ?thesis by simp
  qed
  ultimately have "\<lfloor>log 2 \<bar>x\<bar>\<rfloor> \<le> 4" by (simp add: floor_le_iff)
  then have le: "e \<le> - 19" by (simp add: e_def)
  have p19: "pow2 e \<le> 1 / 2 ^ 19"
    using pow2_mono[OF le] by (simp add: pow2_def)
  have f: "float32 x = of_int (rne (x / pow2 e)) * pow2 e"
    using False by (simp add: float32_def e_def Let_def)
  have "float32 x - x = (of_int (rne (x / pow2 e)) - x / pow2 e) * pow2 e"
    using pos by (simp add: f algebra_simps)
  then have "\<bar>float32 x - x\<bar> = \<bar>of_int (rne (x / pow2 e)) - x / pow2 e\<bar> * pow2 e"
    using pos by (simp add: abs_mult)
  also have "\<dots> \<le> (1 / 2) * pow2 e"
    using rne_error[of "x / pow2 e"] pos by (intro mult_right_mono) simp_all
  also have "\<dots> \<le> (1 / 2) * (1 / 2 ^ 19)" using p19 by simp
  finally show ?thesis by simp
qed

lemma product_error:
  fixes a b x y d :: real
  assumes "\<bar>a - x\<bar> \<le> d" "\<bar>b - y\<bar> \<le> d" "\<bar>x\<bar> \<le> 1" "\<bar>y\<bar> \<le> 1" "d \<le> 1"
  shows "\<bar>a * b - x * y\<bar> \<le> 3 * d"
proof -
  have d0: "0 \<le> d" using assms(1) by linarith
  have b2: "\<bar>b\<bar> \<le> 2" using assms(2,4,5) by linarith
  have "a * b - x * y = (a - x) * b + x * (b - y)" by (simp add: algebra_simps)
  then have "\<bar>a * b - x * y\<bar> \<le> \<bar>(a - x) * b\<bar> + \<bar>x * (b - y)\<bar>"
    using abs_triangle_ineq[of "(a - x) * b" "x * (b - y)"] by simp
  also have "\<bar>(a - x) * b\<bar> \<le> d * 2"
    unfolding abs_mult using assms(1) b2 d0 by (intro mult_mono) simp_all
  also have "\<bar>x * (b - y)\<bar> \<le> 1 * d"
    unfolding abs_mult using assms(2,3) d0 by (intro mult_mono) simp_all
  finally show ?thesis by simp
qed

lemma unit_norm_entries:
  assumes "l2_norm [x1, x2] \<le> 1"
  shows "\<bar>x1\<bar> \<le> 1" "\<bar>x2\<bar> \<le> 1"
proof -
  have "l2_norm [x1, x2] ^ 2 \<le> 1 ^ 2"
    using assms l2_norm_nonneg[of "[x1, x2]"] by (intro power_mono) simp_all
  then have s: "x1\<^sup>2 + x2\<^sup>2 \<le> 1" by (simp add: l2_norm_power2)
  have "0 \<le> x1\<^sup>2" "0 \<le> x2\<^sup>2" by simp_all
  with s have "x1\<^sup>2 \<le> 1" "x2\<^sup>2 \<le> 1" by linarith+
  then have "x1\<^sup>2 \<le> 1\<^sup>2" "x2\<^sup>2 \<le> 1\<^sup>2" by simp_all
  then show "\<bar>x1\<bar> \<le> 1" "\<bar>x2\<bar> \<le> 1" by (simp_all only: abs_le_square_iff[symmetric] abs_one)
qed

lemma near_bound:
  fixes a b :: real
  assumes "\<bar>a - b\<bar> \<le> d" "\<bar>b\<bar> \<le> m" "m + d \<le> c"
  shows "\<bar>a\<bar> \<le> c"
  using assms by linarith

lemma near_trans:
  fixes a b c :: real
  assumes "\<bar>a - b\<bar> \<le> d1" "\<bar>b - c\<bar> \<le> d2" "d1 + d2 \<le> d"
  shows "\<bar>a - c\<bar> \<le> d"
  using assms by linarith

lemma near_add:
  fixes a b x y :: real
  assumes "\<bar>a - x\<bar> \<le> d1" "\<bar>b - y\<bar> \<le> d2" "d1 + d2 \<le> d"
  shows "\<bar>(a + b) - (x + y)\<bar> \<le> d"
  using assms by linarith

lemma abs_product_le_1:
  fixes x y :: real
  assumes "\<bar>x\<bar> \<le> 1" "\<bar>y\<bar> \<le> 1"
  shows "\<bar>x * y\<bar> \<le> 1"
proof -
  have "\<bar>x\<bar> * \<bar>y\<bar> \<le> 1 * 1" using assms by (intro mult_mono) simp_all
  then show ?thesis by (simp add: abs_mult)
qed

lemma float32_products:
  assumes "\<bar>x\<bar> \<le> 1" "\<bar>y\<bar> \<le> 1"
  shows "\<bar>float32 x * float32 y - x * y\<bar> \<le> 3 / 2 ^ 20"
    and "\<bar>float32 (float32 x * float32 y) - x * y\<bar> \<le> 4 / 2 ^ 20"
proof -
  have ex: "\<bar>float32 x - x\<bar> \<le> 1 / 2 ^ 20" using assms(1) by (intro float32_error) simp
  have ey: "\<bar>float32 y - y\<bar> \<le> 1 / 2 ^ 20" using assms(2) by (intro float32_error) simp
  have p: "\<bar>float32 x * float32 y - x * y\<bar> \<le> 3 * (1 / 2 ^ 20)"
    using ex ey assms by (rule product_error) simp
  then show p3: "\<bar>float32 x * float32 y - x * y\<bar> \<le> 3 / 2 ^ 20" by simp
  have "\<bar>float32 x * float32 y\<bar> \<le> 16"
    using p3 abs_product_le_1[OF assms] by (rule near_bound) simp
  from float32_error[OF this] p3
  show "\<bar>float32 (float32 x * float32 y) - x * y\<bar> \<le> 4 / 2 ^ 20"
    by (rule near_trans) simp
qed

lemma fma_dot_error:
  assumes "\<bar>x1\<bar> \<le> 1" "\<bar>y1\<bar> \<le> 1" "\<bar>x2\<bar> \<le> 1" "\<bar>y2\<bar> \<le> 1"
  shows "\<bar>fma_dot 0 [x1, x2] [y1, y2] - (x1 * y1 + x2 * y2)\<bar> \<le> 10 / 2 ^ 20"
proof -
  let ?p1 = "float32 x1 * float32 y1" and ?p2 = "float32 x2 * float32 y2"
  note e1 = float32_products[OF assms(1,2)] and e2 = float32_products[OF assms(3,4)]
  have m: "\<bar>x1 * y1 + x2 * y2\<bar> \<le> 2"
    using abs_product_le_1[OF assms(1,2)] abs_product_le_1[OF assms(3,4)] by linarith
  have s: "\<bar>(float32 ?p1 + ?p2) - (x1 * y1 + x2 * y2)\<bar> \<le> 7 / 2 ^ 20"
    using e1(2) e2(1) by (rule near_add) simp
  have "\<bar>float32 ?p1 + ?p2\<bar> \<le> 16" using s m by (rule near_bound) simp
  from float32_error[OF this] s
  have "\<bar>float32 (float32 ?p1 + ?p2) - (x1 * y1 + x2 * y2)\<bar> \<le> 10 / 2 ^ 20"
    by (rule near_trans) simp
  then show ?thesis by simp
qed

lemma mul_add_dot_error:
  assumes "\<bar>x1\<bar> \<le> 1" "\<bar>y1\<bar> \<le> 1" "\<bar>x2\<bar> \<le> 1" "\<bar>y2\<bar> \<le> 1"
  shows "\<bar>mul_add_dot 0 [x1, x2] [y1, y2] - (x1 * y1 + x2 * y2)\<bar> \<le> 10 / 2 ^ 20"
proof -
  let ?q1 = "float32 (float32 x1 * float32 y1)" and ?q2 = "float32 (float32 x2 * float32 y2)"
  note e1 = float32_products(2)[OF assms(1,2)] and e2 = float32_products(2)[OF assms(3,4)]
  have m: "\<bar>x1 * y1 + x2 * y2\<bar> \<le> 2"
    using abs_product_le_1[OF assms(1,2)] abs_product_le_1[OF assms(3,4)] by linarith
  have "\<bar>?q1\<bar> \<le> 16" using e1 abs_product_le_1[OF assms(1,2)] by (rule near_bound) simp
  from float32_error[OF this] e1
  have r1: "\<bar>float32 ?q1 - x1 * y1\<bar> \<le> 5 / 2 ^ 20" by (rule near_trans) simp
  have s: "\<bar>(float32 ?q1 + ?q2) - (x1 * y1 + x2 * y2)\<bar> \<le> 9 / 2 ^ 20"
    using r1 e2 by (rule near_add) simp
  have "\<bar>float32 ?q1 + ?q2\<bar> \<le> 16" using s m by (rule near_bound) simp
  from float32_error[OF this] s
  have "\<bar>float32 (float32 ?q1 + ?q2) - (x1 * y1 + x2 * y2)\<bar> \<le> 10 / 2 ^ 20"
    by (rule near_trans) simp
  then show ?thesis by simp
qed

lemma mm_accurate_float32: "mm_accurate float32_mm 2 (10 / 2 ^ 20)"
proof -
  have "\<bar>float32_mm a b i j - exact_mm a b i j\<bar> \<le> 10 / 2 ^ 20"
    if b: "length b = 2" and r: "length (a ! i) = 2"
      and nr: "l2_norm (a ! i) \<le> 1" and nc: "l2_norm (column b j) \<le> 1"
    for a b i j
  proof -
    obtain x1 x2 where row: "a ! i = [x1, x2]"
      using r by (cases "a ! i"; cases "tl (a ! i)") auto
    obtain r1 r2 where bb: "b = [r1, r2]"
      using b by (cases b; cases "tl b") auto
    have col: "column b j = [r1 ! j, r2 ! j]" by (simp add: column_def bb)
    have ex: "exact_mm a b i j = x1 * (r1 ! j) + x2 * (r2 ! j)"
      by (simp add: exact_mm_def bb row upt_rec)
    note x = unit_norm_entries[OF nr[unfolded row]]
    note y = unit_norm_entries[OF nc[unfolded col]]
    show ?thesis
      unfolding float32_mm_def row col ex
      using fma_dot_error[OF x(1) y(1) x(2) y(2)] mul_add_dot_error[OF x(1) y(1) x(2) y(2)]
      by simp
  qed
  then show ?thesis by (simp add: mm_accurate_def)
qed

subsection \<open>The concrete embedder, evaluated\<close>

lemma wf_demo: "wf_embedder demo_embedder"
  by (simp add: wf_embedder_def demo_embedder_def)



lemma sqrt_25: "sqrt 25 = 5"
  by (rule real_sqrt_unique) simp_all

lemma sqrt_169: "sqrt 169 = 13"
  by (rule real_sqrt_unique) simp_all

lemma sqrt_100: "sqrt 100 = 10"
  by (rule real_sqrt_unique) simp_all

lemma sqrt_284089: "sqrt 284089 = 533"
  by (rule real_sqrt_unique) simp_all

lemmas eval_defs = get_embeddings_def py_range_def torch_cat_def batch_embeddings_def py_slice_def
  demo_embedder_def mean_pooling_def pool_row_def normalize_row_def masked_sum_def
  pool_denominator_def mask_sum_def clamp_min_def normalize_l2_def normalize_denominator_def
  l2_norm_def transpose01_def torch_mm_def ncols_def argmax_def py_index_def get_answers_def
  cosine_similarity_def set_context_qa_def get_q_embeddings_def QASearcher_init_def
  exact_mm_def column_def sqrt_25 sqrt_169 sqrt_100 sqrt_284089

lemma demo_emb:
  "get_embeddings demo_embedder [''bb'', ''a'', ''c''] 32 = Inr [[5, 12], [4, 3], [4, 3]]"
  by (simp add: eval_defs upt_rec)


lemma demo_searcher_eq:
  "demo_searcher =
     \<lparr>answers = Some [''B'', ''A'', ''C''], questions = Some [''bb'', ''a'', ''c''],
      question_embeddings = Some [[5 / 13, 4 / 5, 4 / 5], [12 / 13, 3 / 5, 3 / 5]],
      embedder = demo_embedder\<rparr>"
  unfolding demo_searcher_def set_context_qa_def get_q_embeddings_def Let_def QASearcher_init_def
  by (simp add: demo_emb) (simp add: eval_defs upt_rec)

lemma demo_emb_z: "get_embeddings demo_embedder [''z''] 1 = Inr [[4, 3]]"
  by (simp add: eval_defs upt_rec)

lemma demo_sim_float:
  "cosine_similarity float32_mm demo_searcher [''z''] 1 =
     (Inr [[14454218 / 16777216, 1, 1]], demo_searcher)"
  unfolding cosine_similarity_def demo_searcher_eq
  by (simp add: demo_emb_z)
     (simp add: torch_mm_def ncols_def float32_mm_def column_def normalize_l2_def
        normalize_row_def normalize_denominator_def l2_norm_def sqrt_25 upt_rec
        mul_add_dot_demo2 mul_add_dot_self del: fma_dot.simps mul_add_dot.simps)

lemma demo_ans:
  "fst (get_answers float32_mm demo_searcher [''z''] 1)
     = Inr [\<lparr>orig_q = ''z'', best_q = ''a'', best_a = ''A''\<rparr>]"
  unfolding get_answers_def demo_sim_float
  by (simp add: demo_searcher_eq argmax_def py_index_def upt_rec)

lemma demo_get_answers:
  "get_answers float32_mm demo_searcher [''z''] 1 =
     (Inr [\<lparr>orig_q = ''z'', best_q = ''a'', best_a = ''A''\<rparr>], demo_searcher)"
  using demo_ans snd_get_answers[of float32_mm demo_searcher "[''z'']" 1]
  by (cases "get_answers float32_mm demo_searcher [''z''] 1") simp

lemma cosine_similarity_emptied:
  "cosine_similarity mm (s\<lparr>answers := a, questions := q\<rparr>) qs b =
     (fst (cosine_similarity mm s qs b), s\<lparr>answers := a, questions := q\<rparr>)"
  by (simp add: cosine_similarity_def split: sum.splits)

lemma demo_emptied_get_answers:
  "fst (get_answers float32_mm (snd (set_context_qa demo_searcher [] [])) [''z''] 1)
     = Inl IndexError"
  unfolding set_context_qa_empty get_answers_def
  by (simp add: cosine_similarity_emptied demo_sim_float argmax_def py_index_def upt_rec)





lemma demo_emb_padding: "get_embeddings demo_embedder [''''] 1 = Inr [[0, 0]]"
  by (simp add: eval_defs upt_rec)

lemma demo_emb_five:
  "get_embeddings demo_embedder [''a'', ''a'', ''a'', ''a'', ''a''] 32
     = Inr [[4, 3], [4, 3], [4, 3], [4, 3], [4, 3]]"
  by (simp add: eval_defs upt_rec)

lemma demo_searcher_five_eq:
  "demo_searcher_five =
     \<lparr>answers = Some [''A0'', ''A1'', ''A2'', ''A3'', ''A4''],
      questions = Some [''a'', ''a'', ''a'', ''a'', ''a''],
      question_embeddings =
        Some [[4 / 5, 4 / 5, 4 / 5, 4 / 5, 4 / 5], [3 / 5, 3 / 5, 3 / 5, 3 / 5, 3 / 5]],
      embedder = demo_embedder\<rparr>"
  unfolding demo_searcher_five_def set_context_qa_def get_q_embeddings_def Let_def
    QASearcher_init_def
  by (simp add: demo_emb_five) (simp add: eval_defs upt_rec)

lemma demo_emb_qq: "get_embeddings demo_embedder [''qq''] 1 = Inr [[5, 12]]"
  by (simp add: eval_defs upt_rec)

lemma demo_sim_five:
  "cosine_similarity float32_mm demo_searcher_five [''qq''] 1 =
     (Inr [[14454217 / 16777216, 14454217 / 16777216, 14454217 / 16777216,
            14454217 / 16777216, 14454218 / 16777216]], demo_searcher_five)"
  unfolding cosine_similarity_def demo_searcher_five_eq
  by (simp add: demo_emb_qq)
     (simp add: torch_mm_def ncols_def float32_mm_def column_def normalize_l2_def
        normalize_row_def normalize_denominator_def l2_norm_def sqrt_169 upt_rec
        fma_dot_demo mul_add_dot_demo del: fma_dot.simps mul_add_dot.simps)

lemma demo_ans_five:
  "fst (get_answers float32_mm demo_searcher_five [''qq''] 1)
     = Inr [\<lparr>orig_q = ''qq'', best_q = ''a'', best_a = ''A4''\<rparr>]"
  unfolding get_answers_def demo_sim_five
  by (simp add: demo_searcher_five_eq argmax_def py_index_def upt_rec)

lemma demo_ans_five_exact:
  "fst (get_answers exact_mm demo_searcher_five [''qq''] 1)
     = Inr [\<lparr>orig_q = ''qq'', best_q = ''a'', best_a = ''A0''\<rparr>]"
  unfolding demo_searcher_five_eq
  by (simp add: eval_defs upt_rec)

section \<open>The claims\<close>

subsection \<open>C1: the best match is the first entry of maximal score\<close>

text \<open>
  Claim C1. For every query of a \<open>get_answers\<close> call against a non-empty index, the
  selected entry is the one whose stored normalised embedding has the maximal dot product
  with the query's normalised embedding, and among entries of exactly equal maximal score
  the one of lowest index is always selected.

  The scores \<open>get_answers\<close> compares are the entries \<open>torch.mm\<close> has computed in float32,
  and entries that are equal as dot products need not be equal as computed. Take the
  context of five identical questions \<open>a\<close> with the answers \<open>A0\<close> to \<open>A4\<close>, and the query
  \<open>qq\<close>. The five stored columns are the same vector (4/5, 3/5), and its dot product
  with the normalised embedding (5/13, 12/13) of the query is 56/65 for each of them.
  With the float32 kernel above the first four computed scores are 14454217/2^24, the
  fifth is 14454218/2^24, and the answer returned is \<open>A4\<close>, not \<open>A0\<close>.
\<close>

theorem identical_entries_counterexample:
  "questions demo_searcher_five = Some [''a'', ''a'', ''a'', ''a'', ''a''] \<and>
   answers demo_searcher_five = Some [''A0'', ''A1'', ''A2'', ''A3'', ''A4''] \<and>
   question_embeddings demo_searcher_five =
     Some (transpose01 2 [[4 / 5, 3 / 5], [4 / 5, 3 / 5], [4 / 5, 3 / 5], [4 / 5, 3 / 5],
                          [4 / 5, 3 / 5]]) \<and>
   dot [5 / 13, 12 / 13] [4 / 5, 3 / 5] = 56 / 65 \<and>
   cosine_similarity float32_mm demo_searcher_five [''qq''] 1 =
     (Inr [[14454217 / 16777216, 14454217 / 16777216, 14454217 / 16777216,
            14454217 / 16777216, 14454218 / 16777216]], demo_searcher_five) \<and>
   fst (get_answers float32_mm demo_searcher_five [''qq''] 1)
     = Inr [\<lparr>orig_q = ''qq'', best_q = ''a'', best_a = ''A4''\<rparr>] \<and>
   fst (get_answers float32_mm demo_searcher_five [''qq''] 1)
     \<noteq> Inr [\<lparr>orig_q = ''qq'', best_q = ''a'', best_a = ''A0''\<rparr>]"
  using demo_sim_five demo_ans_five
  by (simp add: demo_searcher_five_eq transpose01_def dot_def upt_rec)

text \<open>
  Claim C1, as the code has it. The index is the state \<open>s\<close> a successful
  \<open>set_context_qa\<close> leaves (which makes the list of questions non-empty), with at least as
  many answers as questions. For every kernel \<open>mm\<close>: the stored tensor is the transposed
  normalised embedding \<open>cemb\<close> of the questions and \<open>qemb\<close> is the embedding of the
  queries, each row divided by its norm floored at 1e-12; the similarity row of query
  \<open>i\<close> holds the entries the kernel computes for the normalised query row and the stored
  columns; the record for query \<open>i\<close> holds the question and the answer at index \<open>j\<close>,
  where no entry has a higher computed score than \<open>j\<close> and every entry before \<open>j\<close> has a
  strictly lower one. If the kernel is accurate up to \<open>eps\<close>, every computed score is
  within \<open>eps\<close> of the dot product of the two normalised vectors, and the dot product of
  the selected entry is within \<open>2 * eps\<close> of the maximal one.
\<close>

theorem best_match_is_first_maximal_computed_score:
  assumes wf: "wf_embedder (embedder s0)"
    and set: "set_context_qa s0 cq ca = (Inr (), s)"
    and len: "length cq \<le> length ca"
    and qs: "qs \<noteq> []" and batch: "0 < batch" and i: "i < length qs"
  shows "\<exists>cemb qemb sim rs j.
      get_embeddings (embedder s0) cq 32 = Inr cemb \<and> length cemb = length cq \<and>
      question_embeddings s =
        Some (transpose01 (hidden_size (embedder s0)) (normalize_l2 cemb)) \<and>
      (\<forall>k<length cq. normalize_l2 cemb ! k =
          map (\<lambda>a. a / max (l2_norm (cemb ! k)) (1 / 10 ^ 12)) (cemb ! k)) \<and>
      get_embeddings (embedder s) qs batch = Inr qemb \<and> length qemb = length qs \<and>
      normalize_l2 qemb ! i = map (\<lambda>a. a / max (l2_norm (qemb ! i)) (1 / 10 ^ 12)) (qemb ! i) \<and>
      cosine_similarity mm s qs batch = (Inr sim, s) \<and>
      length sim = length qs \<and> length (sim ! i) = length cq \<and>
      (\<forall>k<length cq. sim ! i ! k =
          mm (normalize_l2 qemb)
             (transpose01 (hidden_size (embedder s0)) (normalize_l2 cemb)) i k) \<and>
      (\<forall>eps. mm_accurate mm (hidden_size (embedder s0)) eps \<longrightarrow>
         (\<forall>k<length cq.
            \<bar>sim ! i ! k - dot (normalize_l2 qemb ! i) (normalize_l2 cemb ! k)\<bar> \<le> eps \<and>
            dot (normalize_l2 qemb ! i) (normalize_l2 cemb ! k)
              \<le> dot (normalize_l2 qemb ! i) (normalize_l2 cemb ! j) + 2 * eps)) \<and>
      get_answers mm s qs batch = (Inr rs, s) \<and> length rs = length qs \<and>
      j < length cq \<and> best_q (rs ! i) = cq ! j \<and> best_a (rs ! i) = ca ! j \<and>
      (\<forall>k<length cq. sim ! i ! k \<le> sim ! i ! j) \<and>
      (\<forall>k<j. sim ! i ! k < sim ! i ! j)"
proof -
  let ?e = "embedder s0"
  let ?n = "hidden_size ?e"
  let ?cemb = "embedded ?e cq 32"
  let ?qemb = "embedded ?e qs (nat batch)"
  let ?cn = "normalize_l2 ?cemb"
  let ?qn = "normalize_l2 ?qemb"
  let ?ct = "transpose01 ?n ?cn"
  let ?row = "sim_row mm ?qn ?ct (length cq)"
  let ?sim = "map ?row [0..<length qs]"
  let ?j = "first_max (?row i)"
  let ?rs = "map (\<lambda>i. \<lparr>orig_q = qs ! i, best_q = cq ! first_max (?row i),
                        best_a = ca ! first_max (?row i)\<rparr>) [0..<length qs]"
  note res = set_context_qa_result[OF set]
  note f = set_context_qa_fields[OF set]
  have n: "0 < ?n" using wf by (simp add: wf_embedder_def)
  have wfs: "wf_embedder (embedder s)" using wf f(1) by simp
  have cs: "cosine_similarity mm s qs batch = (Inr ?sim, s)"
    using cosine_similarity_ok[OF wfs f(4) _ qs batch, of mm] by (simp add: f(1))
  have ga: "get_answers mm s qs batch = (Inr ?rs, s)"
    using get_answers_ok[OF wfs f(2) f(3) f(4) _ res(1) len qs batch, of mm] by (simp add: f(1))
  have lce: "length ?cemb = length cq" using wf by (simp add: length_embedded)
  have lqe: "length ?qemb = length qs" using wf batch by (simp add: length_embedded)
  have simi: "?sim ! i = ?row i" using i by simp
  have lrow: "length (?row i) = length cq" by (simp add: sim_row_def)
  have ne: "?row i \<noteq> []" using res(1) lrow by (cases "?row i") auto
  have j: "?j < length cq" using first_max_spec(1)[OF ne] by (simp add: lrow)
  have mx: "?row i ! k \<le> ?row i ! ?j" if "k < length cq" for k
    using first_max_spec(2)[OF ne, of k] that by (simp add: lrow)
  have st: "?row i ! k < ?row i ! ?j" if "k < ?j" for k
    using first_max_spec(3)[OF ne, of k] that .
  have entry: "?row i ! k = mm ?qn ?ct i k" if "k < length cq" for k
    using that by (simp add: sim_row_def)
  have cnk: "?cn ! k = map (\<lambda>a. a / max (l2_norm (?cemb ! k)) (1 / 10 ^ 12)) (?cemb ! k)"
    if "k < length cq" for k
    using that lce by (simp add: normalize_l2_nth normalize_row_formula)
  have qni: "?qn ! i = map (\<lambda>a. a / max (l2_norm (?qemb ! i)) (1 / 10 ^ 12)) (?qemb ! i)"
    using i lqe by (simp add: normalize_l2_nth normalize_row_formula)
  have acc: "\<bar>?row i ! k - dot (?qn ! i) (?cn ! k)\<bar> \<le> eps"
    if "mm_accurate mm ?n eps" "k < length cq" for eps k
  proof -
    have "\<bar>mm ?qn ?ct i k - dot (?qn ! i) (?cn ! k)\<bar> \<le> eps"
    proof (rule sim_entry_accurate[OF that(1) _ _ n])
      show "i < length ?qn" using i lqe by (simp add: length_normalize)
      show "k < length ?cn" using that(2) lce by (simp add: length_normalize)
      show "length (?qn ! i) = ?n"
        using rows_normalize_embedded[of "?qn ! i" ?e qs "nat batch"] i lqe
        by (simp add: length_normalize)
      show "length (?cn ! k) = ?n"
        using rows_normalize_embedded[of "?cn ! k" ?e cq 32] that(2) lce
        by (simp add: length_normalize)
      show "l2_norm (?qn ! i) \<le> 1"
        using i lqe by (simp add: normalize_l2_nth l2_norm_normalize_row_le)
      show "l2_norm (?cn ! k) \<le> 1"
        using that(2) lce by (simp add: normalize_l2_nth l2_norm_normalize_row_le)
    qed
    then show ?thesis using that(2) by (simp add: entry)
  qed
  have best: "dot (?qn ! i) (?cn ! k) \<le> dot (?qn ! i) (?cn ! ?j) + 2 * eps"
    if "mm_accurate mm ?n eps" "k < length cq" for eps k
    using acc[OF that] acc[OF that(1) j] mx[OF that(2)] by linarith
  have "get_embeddings ?e cq 32 = Inr ?cemb" using res(1) by (simp add: get_embeddings_ok)
  moreover have "question_embeddings s = Some ?ct" using f(4) f(1) by simp
  moreover have "get_embeddings (embedder s) qs batch = Inr ?qemb"
    using qs batch f(1) by (simp add: get_embeddings_ok)
  moreover have "length ?sim = length qs" "length (?sim ! i) = length cq"
    using i by (simp_all add: sim_row_def)
  moreover have "\<forall>k<length cq. ?sim ! i ! k = mm ?qn ?ct i k"
    using entry by (simp add: simi)
  moreover have "\<forall>eps. mm_accurate mm ?n eps \<longrightarrow>
         (\<forall>k<length cq.
            \<bar>?sim ! i ! k - dot (?qn ! i) (?cn ! k)\<bar> \<le> eps \<and>
            dot (?qn ! i) (?cn ! k) \<le> dot (?qn ! i) (?cn ! ?j) + 2 * eps)"
    using acc best by (simp add: simi)
  moreover have "length ?rs = length qs" by simp
  moreover have "best_q (?rs ! i) = cq ! ?j" "best_a (?rs ! i) = ca ! ?j" using i by simp_all
  moreover have "\<forall>k<length cq. ?sim ! i ! k \<le> ?sim ! i ! ?j" using mx by (simp add: simi)
  moreover have "\<forall>k<?j. ?sim ! i ! k < ?sim ! i ! ?j" using st by (simp add: simi)
  ultimately show ?thesis using lce lqe cnk qni cs ga j by blast
qed

text \<open>
  Two instances with the float32 kernel, which is accurate up to 10/2^20 on vectors of
  two entries. The context \<open>bb, a, c\<close> and the query \<open>z\<close>: the computed scores are
  14454218/2^24, 1 and 1, and entry 1 is returned (the dot products of the vectors before
  normalisation, 56, 25 and 25, would select entry 0). The context of five identical
  questions and the query \<open>qq\<close>: entry 4 is the first of maximal computed score.
\<close>

theorem best_match_is_first_maximal_computed_score_witness:
  "wf_embedder (embedder (QASearcher_init demo_embedder)) \<and> (0::int) < 1 \<and>
   set_context_qa (QASearcher_init demo_embedder) [''bb'', ''a'', ''c''] [''B'', ''A'', ''C'']
     = (Inr (), demo_searcher) \<and>
   length [''bb'', ''a'', ''c''] \<le> length [''B'', ''A'', ''C''] \<and>
   [''z''] \<noteq> [] \<and>
   (0::nat) < length [''z''] \<and>
   mm_accurate float32_mm (hidden_size (embedder (QASearcher_init demo_embedder))) (10 / 2 ^ 20) \<and>
   (\<exists>cemb qemb sim rs j.
      get_embeddings (embedder (QASearcher_init demo_embedder)) [''bb'', ''a'', ''c''] 32 = Inr cemb \<and>
      length cemb = length [''bb'', ''a'', ''c''] \<and>
      question_embeddings demo_searcher =
        Some (transpose01 (hidden_size (embedder (QASearcher_init demo_embedder))) (normalize_l2 cemb)) \<and>
      (\<forall>k<length [''bb'', ''a'', ''c'']. normalize_l2 cemb ! k =
          map (\<lambda>a. a / max (l2_norm (cemb ! k)) (1 / 10 ^ 12)) (cemb ! k)) \<and>
      get_embeddings (embedder demo_searcher) [''z''] 1 = Inr qemb \<and>
      length qemb = length [''z''] \<and>
      normalize_l2 qemb ! 0 =
        map (\<lambda>a. a / max (l2_norm (qemb ! 0)) (1 / 10 ^ 12)) (qemb ! 0) \<and>
      cosine_similarity float32_mm demo_searcher [''z''] 1 = (Inr sim, demo_searcher) \<and>
      length sim = length [''z''] \<and> length (sim ! 0) = length [''bb'', ''a'', ''c''] \<and>
      (\<forall>k<length [''bb'', ''a'', ''c'']. sim ! 0 ! k =
          float32_mm (normalize_l2 qemb)
             (transpose01 (hidden_size (embedder (QASearcher_init demo_embedder))) (normalize_l2 cemb)) 0 k) \<and>
      (\<forall>eps. mm_accurate float32_mm (hidden_size (embedder (QASearcher_init demo_embedder))) eps \<longrightarrow>
         (\<forall>k<length [''bb'', ''a'', ''c''].
            \<bar>sim ! 0 ! k - dot (normalize_l2 qemb ! 0) (normalize_l2 cemb ! k)\<bar> \<le> eps \<and>
            dot (normalize_l2 qemb ! 0) (normalize_l2 cemb ! k)
              \<le> dot (normalize_l2 qemb ! 0) (normalize_l2 cemb ! j) + 2 * eps)) \<and>
      get_answers float32_mm demo_searcher [''z''] 1 = (Inr rs, demo_searcher) \<and>
      length rs = length [''z''] \<and>
      j < length [''bb'', ''a'', ''c''] \<and>
      best_q (rs ! 0) = [''bb'', ''a'', ''c''] ! j \<and> best_a (rs ! 0) = [''B'', ''A'', ''C''] ! j \<and>
      (\<forall>k<length [''bb'', ''a'', ''c'']. sim ! 0 ! k \<le> sim ! 0 ! j) \<and>
      (\<forall>k<j. sim ! 0 ! k < sim ! 0 ! j)) \<and>
   set_context_qa (QASearcher_init demo_embedder) [''a'', ''a'', ''a'', ''a'', ''a''] [''A0'', ''A1'', ''A2'', ''A3'', ''A4'']
     = (Inr (), demo_searcher_five) \<and>
   length [''a'', ''a'', ''a'', ''a'', ''a''] \<le> length [''A0'', ''A1'', ''A2'', ''A3'', ''A4''] \<and>
   [''qq''] \<noteq> [] \<and>
   (0::nat) < length [''qq''] \<and>
   mm_accurate float32_mm (hidden_size (embedder (QASearcher_init demo_embedder))) (10 / 2 ^ 20) \<and>
   (\<exists>cemb qemb sim rs j.
      get_embeddings (embedder (QASearcher_init demo_embedder)) [''a'', ''a'', ''a'', ''a'', ''a''] 32 = Inr cemb \<and>
      length cemb = length [''a'', ''a'', ''a'', ''a'', ''a''] \<and>
      question_embeddings demo_searcher_five =
        Some (transpose01 (hidden_size (embedder (QASearcher_init demo_embedder))) (normalize_l2 cemb)) \<and>
      (\<forall>k<length [''a'', ''a'', ''a'', ''a'', ''a'']. normalize_l2 cemb ! k =
          map (\<lambda>a. a / max (l2_norm (cemb ! k)) (1 / 10 ^ 12)) (cemb ! k)) \<and>
      get_embeddings (embedder demo_searcher_five) [''qq''] 1 = Inr qemb \<and>
      length qemb = length [''qq''] \<and>
      normalize_l2 qemb ! 0 =
        map (\<lambda>a. a / max (l2_norm (qemb ! 0)) (1 / 10 ^ 12)) (qemb ! 0) \<and>
      cosine_similarity float32_mm demo_searcher_five [''qq''] 1 = (Inr sim, demo_searcher_five) \<and>
      length sim = length [''qq''] \<and> length (sim ! 0) = length [''a'', ''a'', ''a'', ''a'', ''a''] \<and>
      (\<forall>k<length [''a'', ''a'', ''a'', ''a'', ''a'']. sim ! 0 ! k =
          float32_mm (normalize_l2 qemb)
             (transpose01 (hidden_size (embedder (QASearcher_init demo_embedder))) (normalize_l2 cemb)) 0 k) \<and>
      (\<forall>eps. mm_accurate float32_mm (hidden_size (embedder (QASearcher_init demo_embedder))) eps \<longrightarrow>
         (\<forall>k<length [''a'', ''a'', ''a'', ''a'', ''a''].
            \<bar>sim ! 0 ! k - dot (normalize_l2 qemb ! 0) (normalize_l2 cemb ! k)\<bar> \<le> eps \<and>
            dot (normalize_l2 qemb ! 0) (normalize_l2 cemb ! k)
              \<le> dot (normalize_l2 qemb ! 0) (normalize_l2 cemb ! j) + 2 * eps)) \<and>
      get_answers float32_mm demo_searcher_five [''qq''] 1 = (Inr rs, demo_searcher_five) \<and>
      length rs = length [''qq''] \<and>
      j < length [''a'', ''a'', ''a'', ''a'', ''a''] \<and>
      best_q (rs ! 0) = [''a'', ''a'', ''a'', ''a'', ''a''] ! j \<and> best_a (rs ! 0) = [''A0'', ''A1'', ''A2'', ''A3'', ''A4''] ! j \<and>
      (\<forall>k<length [''a'', ''a'', ''a'', ''a'', ''a'']. sim ! 0 ! k \<le> sim ! 0 ! j) \<and>
      (\<forall>k<j. sim ! 0 ! k < sim ! 0 ! j)) \<and>
   get_embeddings demo_embedder [''bb'', ''a'', ''c''] 32 = Inr [[5, 12], [4, 3], [4, 3]] \<and>
   question_embeddings demo_searcher =
     Some [[5 / 13, 4 / 5, 4 / 5], [12 / 13, 3 / 5, 3 / 5]] \<and>
   cosine_similarity float32_mm demo_searcher [''z''] 1 =
     (Inr [[14454218 / 16777216, 1, 1]], demo_searcher) \<and>
   fst (get_answers float32_mm demo_searcher [''z''] 1) =
     Inr [\<lparr>orig_q = ''z'', best_q = ''a'', best_a = ''A''\<rparr>] \<and>
   question_embeddings demo_searcher_five =
     Some [[4 / 5, 4 / 5, 4 / 5, 4 / 5, 4 / 5], [3 / 5, 3 / 5, 3 / 5, 3 / 5, 3 / 5]] \<and>
   cosine_similarity float32_mm demo_searcher_five [''qq''] 1 =
     (Inr [[14454217 / 16777216, 14454217 / 16777216, 14454217 / 16777216,
            14454217 / 16777216, 14454218 / 16777216]], demo_searcher_five) \<and>
   fst (get_answers float32_mm demo_searcher_five [''qq''] 1) =
     Inr [\<lparr>orig_q = ''qq'', best_q = ''a'', best_a = ''A4''\<rparr>]"
proof -
  have wf: "wf_embedder (embedder (QASearcher_init demo_embedder))"
    by (simp add: QASearcher_init_def wf_demo)
  have b: "(0::int) < 1" by simp
  have Aset: "set_context_qa (QASearcher_init demo_embedder) [''bb'', ''a'', ''c''] [''B'', ''A'', ''C'']
     = (Inr (), demo_searcher)"
    by (simp add: demo_searcher_def set_context_qa_ok)
  have Alen: "length [''bb'', ''a'', ''c''] \<le> length [''B'', ''A'', ''C'']"
    by simp
  have Aqs: "[''z''] \<noteq> []"
    by simp
  have Ai: "(0::nat) < length [''z'']"
    by simp
  have Aacc: "mm_accurate float32_mm (hidden_size (embedder (QASearcher_init demo_embedder))) (10 / 2 ^ 20)"
    using mm_accurate_float32 by (simp add: QASearcher_init_def demo_embedder_def)
  have Athm: "\<exists>cemb qemb sim rs j.
      get_embeddings (embedder (QASearcher_init demo_embedder)) [''bb'', ''a'', ''c''] 32 = Inr cemb \<and>
      length cemb = length [''bb'', ''a'', ''c''] \<and>
      question_embeddings demo_searcher =
        Some (transpose01 (hidden_size (embedder (QASearcher_init demo_embedder))) (normalize_l2 cemb)) \<and>
      (\<forall>k<length [''bb'', ''a'', ''c'']. normalize_l2 cemb ! k =
          map (\<lambda>a. a / max (l2_norm (cemb ! k)) (1 / 10 ^ 12)) (cemb ! k)) \<and>
      get_embeddings (embedder demo_searcher) [''z''] 1 = Inr qemb \<and>
      length qemb = length [''z''] \<and>
      normalize_l2 qemb ! 0 =
        map (\<lambda>a. a / max (l2_norm (qemb ! 0)) (1 / 10 ^ 12)) (qemb ! 0) \<and>
      cosine_similarity float32_mm demo_searcher [''z''] 1 = (Inr sim, demo_searcher) \<and>
      length sim = length [''z''] \<and> length (sim ! 0) = length [''bb'', ''a'', ''c''] \<and>
      (\<forall>k<length [''bb'', ''a'', ''c'']. sim ! 0 ! k =
          float32_mm (normalize_l2 qemb)
             (transpose01 (hidden_size (embedder (QASearcher_init demo_embedder))) (normalize_l2 cemb)) 0 k) \<and>
      (\<forall>eps. mm_accurate float32_mm (hidden_size (embedder (QASearcher_init demo_embedder))) eps \<longrightarrow>
         (\<forall>k<length [''bb'', ''a'', ''c''].
            \<bar>sim ! 0 ! k - dot (normalize_l2 qemb ! 0) (normalize_l2 cemb ! k)\<bar> \<le> eps \<and>
            dot (normalize_l2 qemb ! 0) (normalize_l2 cemb ! k)
              \<le> dot (normalize_l2 qemb ! 0) (normalize_l2 cemb ! j) + 2 * eps)) \<and>
      get_answers float32_mm demo_searcher [''z''] 1 = (Inr rs, demo_searcher) \<and>
      length rs = length [''z''] \<and>
      j < length [''bb'', ''a'', ''c''] \<and>
      best_q (rs ! 0) = [''bb'', ''a'', ''c''] ! j \<and> best_a (rs ! 0) = [''B'', ''A'', ''C''] ! j \<and>
      (\<forall>k<length [''bb'', ''a'', ''c'']. sim ! 0 ! k \<le> sim ! 0 ! j) \<and>
      (\<forall>k<j. sim ! 0 ! k < sim ! 0 ! j)"
    by (rule best_match_is_first_maximal_computed_score[OF wf Aset Alen Aqs b Ai])
  have Bset: "set_context_qa (QASearcher_init demo_embedder) [''a'', ''a'', ''a'', ''a'', ''a''] [''A0'', ''A1'', ''A2'', ''A3'', ''A4'']
     = (Inr (), demo_searcher_five)"
    by (simp add: demo_searcher_five_def set_context_qa_ok)
  have Blen: "length [''a'', ''a'', ''a'', ''a'', ''a''] \<le> length [''A0'', ''A1'', ''A2'', ''A3'', ''A4'']"
    by simp
  have Bqs: "[''qq''] \<noteq> []"
    by simp
  have Bi: "(0::nat) < length [''qq'']"
    by simp
  have Bacc: "mm_accurate float32_mm (hidden_size (embedder (QASearcher_init demo_embedder))) (10 / 2 ^ 20)"
    using mm_accurate_float32 by (simp add: QASearcher_init_def demo_embedder_def)
  have Bthm: "\<exists>cemb qemb sim rs j.
      get_embeddings (embedder (QASearcher_init demo_embedder)) [''a'', ''a'', ''a'', ''a'', ''a''] 32 = Inr cemb \<and>
      length cemb = length [''a'', ''a'', ''a'', ''a'', ''a''] \<and>
      question_embeddings demo_searcher_five =
        Some (transpose01 (hidden_size (embedder (QASearcher_init demo_embedder))) (normalize_l2 cemb)) \<and>
      (\<forall>k<length [''a'', ''a'', ''a'', ''a'', ''a'']. normalize_l2 cemb ! k =
          map (\<lambda>a. a / max (l2_norm (cemb ! k)) (1 / 10 ^ 12)) (cemb ! k)) \<and>
      get_embeddings (embedder demo_searcher_five) [''qq''] 1 = Inr qemb \<and>
      length qemb = length [''qq''] \<and>
      normalize_l2 qemb ! 0 =
        map (\<lambda>a. a / max (l2_norm (qemb ! 0)) (1 / 10 ^ 12)) (qemb ! 0) \<and>
      cosine_similarity float32_mm demo_searcher_five [''qq''] 1 = (Inr sim, demo_searcher_five) \<and>
      length sim = length [''qq''] \<and> length (sim ! 0) = length [''a'', ''a'', ''a'', ''a'', ''a''] \<and>
      (\<forall>k<length [''a'', ''a'', ''a'', ''a'', ''a'']. sim ! 0 ! k =
          float32_mm (normalize_l2 qemb)
             (transpose01 (hidden_size (embedder (QASearcher_init demo_embedder))) (normalize_l2 cemb)) 0 k) \<and>
      (\<forall>eps. mm_accurate float32_mm (hidden_size (embedder (QASearcher_init demo_embedder))) eps \<longrightarrow>
         (\<forall>k<length [''a'', ''a'', ''a'', ''a'', ''a''].
            \<bar>sim ! 0 ! k - dot (normalize_l2 qemb ! 0) (normalize_l2 cemb ! k)\<bar> \<le> eps \<and>
            dot (normalize_l2 qemb ! 0) (normalize_l2 cemb ! k)
              \<le> dot (normalize_l2 qemb ! 0) (normalize_l2 cemb ! j) + 2 * eps)) \<and>
      get_answers float32_mm demo_searcher_five [''qq''] 1 = (Inr rs, demo_searcher_five) \<and>
      length rs = length [''qq''] \<and>
      j < length [''a'', ''a'', ''a'', ''a'', ''a''] \<and>
      best_q (rs ! 0) = [''a'', ''a'', ''a'', ''a'', ''a''] ! j \<and> best_a (rs ! 0) = [''A0'', ''A1'', ''A2'', ''A3'', ''A4''] ! j \<and>
      (\<forall>k<length [''a'', ''a'', ''a'', ''a'', ''a'']. sim ! 0 ! k \<le> sim ! 0 ! j) \<and>
      (\<forall>k<j. sim ! 0 ! k < sim ! 0 ! j)"
    by (rule best_match_is_first_maximal_computed_score[OF wf Bset Blen Bqs b Bi])
  have embA: "get_embeddings demo_embedder [''bb'', ''a'', ''c''] 32 = Inr [[5, 12], [4, 3], [4, 3]]"
    by (rule demo_emb)
  have storedA: "question_embeddings demo_searcher =
     Some [[5 / 13, 4 / 5, 4 / 5], [12 / 13, 3 / 5, 3 / 5]]"
    by (simp add: demo_searcher_eq)
  have simA: "cosine_similarity float32_mm demo_searcher [''z''] 1 =
     (Inr [[14454218 / 16777216, 1, 1]], demo_searcher)"
    by (rule demo_sim_float)
  have ansA: "fst (get_answers float32_mm demo_searcher [''z''] 1) =
     Inr [\<lparr>orig_q = ''z'', best_q = ''a'', best_a = ''A''\<rparr>]"
    by (rule demo_ans)
  have storedB: "question_embeddings demo_searcher_five =
     Some [[4 / 5, 4 / 5, 4 / 5, 4 / 5, 4 / 5], [3 / 5, 3 / 5, 3 / 5, 3 / 5, 3 / 5]]"
    by (simp add: demo_searcher_five_eq)
  have simB: "cosine_similarity float32_mm demo_searcher_five [''qq''] 1 =
     (Inr [[14454217 / 16777216, 14454217 / 16777216, 14454217 / 16777216,
            14454217 / 16777216, 14454218 / 16777216]], demo_searcher_five)"
    by (rule demo_sim_five)
  have ansB: "fst (get_answers float32_mm demo_searcher_five [''qq''] 1) =
     Inr [\<lparr>orig_q = ''qq'', best_q = ''a'', best_a = ''A4''\<rparr>]"
    by (rule demo_ans_five)
  show ?thesis
    by (intro conjI) (fact wf b Aset Alen Aqs Ai Aacc Athm Bset Blen Bqs Bi Bacc Bthm
        embA storedA simA ansA storedB simB ansB)+
qed

subsection \<open>C2: one record per query, in order\<close>

text \<open>
  Claim C2. For every sequence of queries and every batch size, \<open>get_answers\<close> returns
  one record per query, in the order of the queries, holding the query text and the
  question and answer at the selected index.

  For a non-empty sequence of queries this is lemma \<open>get_answers_ok\<close> above: the result
  is the list of the records for the queries 0, 1, ... in this order. For the empty
  sequence of queries the code returns no list: \<open>get_embeddings\<close> hands \<open>torch.cat\<close> an
  empty list of chunks and the RuntimeError propagates through \<open>cosine_similarity\<close>
  (with a zero batch size \<open>range\<close> raises a ValueError first). The statement below
  evaluates \<open>get_answers\<close> on the empty sequence of queries, for any searcher and any
  kernel.
\<close>

theorem get_answers_empty_queries_raises:
  "get_answers mm self [] batch = (Inl (if batch = 0 then ValueError else RuntimeError), self)"
  by (simp add: get_answers_def cosine_similarity_def get_embeddings_cases)

subsection \<open>C3: questions and answers of different lengths\<close>

text \<open>
  Claim C3. A call of \<open>set_context\<close> with questions and answers of different lengths
  fails with ShapeMismatch before any embedding work and leaves the stored index
  unchanged.

  The code does not compare the two lengths. On the searcher that holds the context
  \<open>bb, a, c\<close> with answers \<open>B, A, C\<close>, setting three questions with two answers
  succeeds and replaces the stored questions and answers.
\<close>

theorem set_context_qa_mismatch_counterexample:
  "length [''q1'', ''q2'', ''q3''] \<noteq> length [''a1'', ''a2''] \<and>
   fst (set_context_qa demo_searcher [''q1'', ''q2'', ''q3''] [''a1'', ''a2'']) = Inr () \<and>
   questions demo_searcher = Some [''bb'', ''a'', ''c''] \<and>
   answers demo_searcher = Some [''B'', ''A'', ''C''] \<and>
   questions (snd (set_context_qa demo_searcher [''q1'', ''q2'', ''q3''] [''a1'', ''a2'']))
     = Some [''q1'', ''q2'', ''q3''] \<and>
   answers (snd (set_context_qa demo_searcher [''q1'', ''q2'', ''q3''] [''a1'', ''a2'']))
     = Some [''a1'', ''a2'']"
  by (simp add: set_context_qa_ok demo_searcher_eq)

text \<open>
  Claim C3, as the code has it. \<open>set_context_qa\<close> never fails with ShapeMismatch, and
  for a non-empty list of questions and any list of answers, of whatever length, it
  succeeds and replaces the stored answers, questions and embeddings by the given
  answers, the given questions and the transposed normalised embeddings of the given
  questions.
\<close>

theorem set_context_qa_has_no_length_check:
  "fst (set_context_qa self qs as) \<noteq> Inl ShapeMismatch \<and>
   (qs \<noteq> [] \<longrightarrow>
      (\<exists>emb. get_embeddings (embedder self) qs 32 = Inr emb \<and>
         set_context_qa self qs as =
           (Inr (), self\<lparr>answers := Some as, questions := Some qs,
              question_embeddings :=
                Some (transpose01 (hidden_size (embedder self)) (normalize_l2 emb))\<rparr>)))"
proof (cases "qs = []")
  case True
  then show ?thesis by (simp add: set_context_qa_empty)
next
  case False
  then show ?thesis by (simp add: set_context_qa_ok get_embeddings_ok)
qed

text \<open>An instance: three questions and two answers on the concrete searcher.\<close>

theorem set_context_qa_has_no_length_check_witness:
  "[''q1'', ''q2'', ''q3''] \<noteq> [] \<and>
   fst (set_context_qa demo_searcher [''q1'', ''q2'', ''q3''] [''a1'', ''a2'']) \<noteq> Inl ShapeMismatch \<and>
   (\<exists>emb. get_embeddings (embedder demo_searcher) [''q1'', ''q2'', ''q3''] 32 = Inr emb \<and>
      set_context_qa demo_searcher [''q1'', ''q2'', ''q3''] [''a1'', ''a2''] =
        (Inr (), demo_searcher\<lparr>answers := Some [''a1'', ''a2''],
           questions := Some [''q1'', ''q2'', ''q3''],
           question_embeddings :=
             Some (transpose01 (hidden_size (embedder demo_searcher)) (normalize_l2 emb))\<rparr>))"
  using set_context_qa_has_no_length_check[of demo_searcher "[''q1'', ''q2'', ''q3'']" "[''a1'', ''a2'']"]
  by simp

subsection \<open>C4: answering without a context\<close>

text \<open>
  Claim C4. A \<open>get_answers\<close> call issued when the index is not set, or holds an empty
  context, fails with a ContextNotSet (respectively EmptyContext) error.

  The code has neither error. On a freshly constructed searcher the call embeds the
  queries and then fails in \<open>torch.mm\<close> with a TypeError, because the stored embeddings
  are \<open>None\<close>. Setting an empty context on that searcher raises a RuntimeError itself,
  and a later \<open>get_answers\<close> fails with the same TypeError.
\<close>

theorem get_answers_unset_counterexample:
  "fst (get_answers float32_mm (QASearcher_init demo_embedder) [''z''] 1) = Inl TypeError \<and>
   fst (get_answers float32_mm (QASearcher_init demo_embedder) [''z''] 1) \<noteq> Inl ContextNotSet \<and>
   fst (set_context_qa (QASearcher_init demo_embedder) [] []) = Inl RuntimeError \<and>
   fst (get_answers float32_mm (snd (set_context_qa (QASearcher_init demo_embedder) [] [])) [''z''] 1)
     = Inl TypeError \<and>
   fst (get_answers float32_mm (snd (set_context_qa (QASearcher_init demo_embedder) [] [])) [''z''] 1)
     \<noteq> Inl EmptyContext"
  by (simp add: set_context_qa_empty get_answers_def cosine_similarity_def get_embeddings_ok
      torch_mm_def QASearcher_init_def)

text \<open>
  Claim C4, as the code has it. When no embeddings are stored, or when the stored list
  of questions is empty (and the embedder keeps its contract), \<open>get_answers\<close> returns no
  match: it fails with one of the exceptions of Python and torch. When no embeddings
  are stored, the queries are not empty and the batch size is positive, the queries are
  embedded and the exception is the TypeError of \<open>torch.mm\<close>.
\<close>

theorem get_answers_without_context_fails:
  assumes "question_embeddings self = None \<or>
           (questions self = Some [] \<and> wf_embedder (embedder self))"
  shows "(\<exists>e. fst (get_answers mm self qs batch) = Inl e \<and>
              (e = ValueError \<or> e = RuntimeError \<or> e = TypeError \<or> e = IndexError)) \<and>
         (question_embeddings self = None \<and> qs \<noteq> [] \<and> 0 < batch \<longrightarrow>
            (\<exists>emb. get_embeddings (embedder self) qs batch = Inr emb) \<and>
            fst (get_answers mm self qs batch) = Inl TypeError)"
proof -
  have none: "fst (get_answers mm self qs batch) = Inl TypeError"
    if "question_embeddings self = None" "qs \<noteq> []" "0 < batch"
    using that by (simp add: get_answers_def cosine_similarity_def get_embeddings_ok torch_mm_def)
  have embeds: "\<exists>emb. get_embeddings (embedder self) qs batch = Inr emb"
    if "qs \<noteq> []" "0 < batch"
    using that by (simp add: get_embeddings_ok)
  have fails: "\<exists>e. fst (get_answers mm self qs batch) = Inl e"
  proof (cases "get_embeddings (embedder self) qs batch")
    case (Inl e)
    then show ?thesis by (simp add: get_answers_def cosine_similarity_def)
  next
    case (Inr emb)
    then have ok: "qs \<noteq> []" "0 < batch" and emb: "emb = embedded (embedder self) qs (nat batch)"
      by (auto simp: get_embeddings_cases split: if_splits)
    show ?thesis
    proof (cases "question_embeddings self")
      case None
      then show ?thesis using none ok by simp
    next
      case (Some b)
      with assms have q: "questions self = Some []" and wf: "wf_embedder (embedder self)"
        by simp_all
      show ?thesis
      proof (cases "torch_mm mm (normalize_l2 emb) (question_embeddings self)")
        case (Inl e)
        then show ?thesis using Inr by (simp add: get_answers_def cosine_similarity_def)
      next
        case sim: (Inr sim)
        have "length sim = length qs"
          using length_torch_mm[OF sim] wf ok emb by (simp add: length_normalize length_embedded)
        then have "[0..<length sim] \<noteq> []" using ok by simp
        from get_answers_loop_questions_empty[OF q this, of qs sim "[]"]
        show ?thesis using Inr sim by (auto simp: get_answers_def cosine_similarity_def)
      qed
    qed
  qed
  then obtain e where e: "fst (get_answers mm self qs batch) = Inl e" ..
  from get_answers_error[OF e] e none embeds show ?thesis by auto
qed

text \<open>
  Two instances: one query on the freshly constructed concrete searcher (TypeError), and
  the same query on the concrete searcher after \<open>set_context_qa\<close> was called on it with
  empty lists, which leaves the old embeddings with an empty list of questions
  (IndexError from \<open>self.questions[best_ix]\<close>).
\<close>

theorem get_answers_without_context_fails_witness:
  "(question_embeddings (QASearcher_init demo_embedder) = None \<or>
      (questions (QASearcher_init demo_embedder) = Some [] \<and>
       wf_embedder (embedder (QASearcher_init demo_embedder)))) \<and>
   [''z''] \<noteq> [] \<and> (0::int) < 1 \<and>
   (\<exists>e. fst (get_answers float32_mm (QASearcher_init demo_embedder) [''z''] 1) = Inl e \<and>
              (e = ValueError \<or> e = RuntimeError \<or> e = TypeError \<or> e = IndexError)) \<and>
   (\<exists>emb. get_embeddings (embedder (QASearcher_init demo_embedder)) [''z''] 1 = Inr emb) \<and>
   fst (get_answers float32_mm (QASearcher_init demo_embedder) [''z''] 1) = Inl TypeError \<and>
   questions (snd (set_context_qa demo_searcher [] [])) = Some [] \<and>
   wf_embedder (embedder (snd (set_context_qa demo_searcher [] []))) \<and>
   (\<exists>e. fst (get_answers float32_mm (snd (set_context_qa demo_searcher [] [])) [''z''] 1) = Inl e \<and>
              (e = ValueError \<or> e = RuntimeError \<or> e = TypeError \<or> e = IndexError)) \<and>
   fst (get_answers float32_mm (snd (set_context_qa demo_searcher [] [])) [''z''] 1)
     = Inl IndexError"
proof -
  have h: "question_embeddings (QASearcher_init demo_embedder) = None \<or>
      (questions (QASearcher_init demo_embedder) = Some [] \<and>
       wf_embedder (embedder (QASearcher_init demo_embedder)))"
    by (simp add: QASearcher_init_def)
  have q: "questions (snd (set_context_qa demo_searcher [] [])) = Some []"
    and w: "wf_embedder (embedder (snd (set_context_qa demo_searcher [] [])))"
    by (simp_all add: set_context_qa_empty demo_searcher_eq wf_demo)
  then have h2: "question_embeddings (snd (set_context_qa demo_searcher [] [])) = None \<or>
      (questions (snd (set_context_qa demo_searcher [] [])) = Some [] \<and>
       wf_embedder (embedder (snd (set_context_qa demo_searcher [] []))))"
    by simp
  from get_answers_without_context_fails[OF h, of float32_mm "[''z'']" 1]
    get_answers_without_context_fails[OF h2, of float32_mm "[''z'']" 1] h q w
    demo_emptied_get_answers
  show ?thesis by (simp add: QASearcher_init_def)
qed

subsection \<open>C5: the batch size does not change the embeddings\<close>



subsection \<open>C6: empty input\<close>

text \<open>
  Claim C6. Embedding an empty sequence of texts returns an empty sequence, and
  \<open>set_context\<close> with empty questions and answers succeeds with an empty index.

  The code does neither. For the empty list the loop of \<open>get_embeddings\<close> does not run
  and \<open>torch.cat\<close> rejects the empty list of chunks with a RuntimeError (a zero batch
  size is rejected by \<open>range\<close> before that). \<open>set_context_qa\<close> has then already
  assigned the empty answers and questions, and it leaves the embeddings as they were.
\<close>

theorem empty_input_raises:
  "get_embeddings e [] batch = Inl (if batch = 0 then ValueError else RuntimeError) \<and>
   set_context_qa self [] [] =
     (Inl RuntimeError, self\<lparr>answers := Some [], questions := Some []\<rparr>)"
  by (simp add: get_embeddings_cases set_context_qa_empty)

subsection \<open>C7: the range of the similarity scores\<close>




subsection \<open>C8: the divisions of pooling and normalisation\<close>

text \<open>
  Claim C8. Masked mean pooling divides the masked token sum by the number of valid
  tokens floored at 1e-9, never by zero; normalising a vector of norm zero leaves it
  unchanged; so an input that is all padding gives a well-defined vector.

  In order: the divisor of pooling is the mask sum floored at 1e-9 and is positive, and
  every pooled entry is the masked sum over this divisor; the divisor of normalisation
  is the norm floored at 1e-12 and is positive, and every normalised entry is the entry
  over this divisor; a vector of norm zero is normalised to itself; a mask row of
  zeros gives the zero vector after pooling and after normalisation; and every row of a
  normalised embedding, stored or of a query, is the normalised pooled row of some text
  of some chunk. (Entries are exact reals, so ``not a number'' appears here as a
  division whose divisor is zero, which the two positive divisors exclude.)
\<close>

theorem embedding_is_division_safe:
  "pool_denominator ms = max (mask_sum ms) (1 / 10 ^ 9) \<and> 0 < pool_denominator ms \<and>
   (\<forall>d<n. pool_row n toks ms ! d = masked_sum toks ms d / pool_denominator ms) \<and>
   normalize_denominator v = max (l2_norm v) (1 / 10 ^ 12) \<and> 0 < normalize_denominator v \<and>
   (\<forall>d<length v. normalize_row v ! d = v ! d / normalize_denominator v) \<and>
   (l2_norm v = 0 \<longrightarrow> normalize_row v = v) \<and>
   ((\<forall>m\<in>set ms. m = 0) \<longrightarrow>
      pool_row n toks ms = replicate n 0 \<and>
      normalize_row (pool_row n toks ms) = replicate n 0) \<and>
   (get_embeddings e qs batch = Inr emb \<longrightarrow>
      (\<forall>r\<in>set (normalize_l2 emb). \<exists>i toks ms. i < length qs \<and>
           (toks, ms) \<in> set (zip (model e (tokenizer e (py_slice qs i (i + nat batch))))
                               (attention_mask (tokenizer e (py_slice qs i (i + nat batch))))) \<and>
           r = normalize_row (pool_row (hidden_size e) toks ms)))"
proof -
  have "pool_denominator ms = max (mask_sum ms) (1 / 10 ^ 9)"
    by (simp add: pool_denominator_def clamp_min_def)
  moreover have "\<forall>d<n. pool_row n toks ms ! d = masked_sum toks ms d / pool_denominator ms"
    by (simp add: pool_row_def)
  moreover have "normalize_denominator v = max (l2_norm v) (1 / 10 ^ 12)"
    by (simp add: normalize_denominator_def)
  moreover have "\<forall>d<length v. normalize_row v ! d = v ! d / normalize_denominator v"
    by (simp add: normalize_row_def)
  moreover have "(\<forall>m\<in>set ms. m = 0) \<longrightarrow>
      pool_row n toks ms = replicate n 0 \<and>
      normalize_row (pool_row n toks ms) = replicate n 0"
    by (simp add: pool_row_all_padding normalize_row_zeros)
  ultimately show ?thesis
    using pool_denominator_pos normalize_denominator_pos normalize_row_zero_norm
      normalized_rows_of_embeddings
    by blast
qed

text \<open>
  An instance: the empty text, which the concrete tokenizer marks as padding only.
\<close>

theorem embedding_is_division_safe_witness:
  "l2_norm [0, 0] = 0 \<and> set [0::int] = {0} \<and>
   get_embeddings demo_embedder [''''] 1 = Inr [[0, 0]] \<and>
   0 < pool_denominator [0] \<and> 0 < normalize_denominator [0, 0] \<and>
   normalize_row [0, 0] = [0, 0] \<and>
   pool_row 2 [[0, 1]] [0] = replicate 2 0 \<and>
   normalize_row (pool_row 2 [[0, 1]] [0]) = replicate 2 0 \<and>
   normalize_l2 [[0, 0]] = [[0, 0]]"
proof -
  have h1: "l2_norm [0, 0] = 0" by (simp add: l2_norm_def)
  have h2: "\<forall>m\<in>set [0::int]. m = 0" by simp
  note h3 = demo_emb_padding
  from embedding_is_division_safe[of "[0]" 2 "[[0, 1]]" "[0, 0]" demo_embedder "['''']" 1 "[[0, 0]]"]
    h1 h2 h3
  show ?thesis by (auto simp: normalize_l2_def)
qed

subsection \<open>C9: a new context replaces the old one\<close>

text \<open>
  Claim C9. After a successful \<open>set_context\<close> with context A and a successful
  \<open>set_context\<close> with context B, every record of a later \<open>get_answers\<close> takes its matched
  question and its matched answer from B.

  The searcher after the two calls is the one that setting B on a fresh searcher gives,
  and every record holds the question and the answer of B at one common index, whatever
  the kernel computes.
\<close>

theorem context_replacement_is_total:
  assumes "set_context_qa s0 qA aA = (Inr (), s1)"
    and "set_context_qa s1 qB aB = (Inr (), s2)"
    and "get_answers mm s2 qs batch = (Inr rs, s3)"
    and "r \<in> set rs"
  shows "s2 = snd (set_context_qa (QASearcher_init (embedder s0)) qB aB) \<and>
         (\<exists>j. j < length qB \<and> j < length aB \<and> best_q r = qB ! j \<and> best_a r = aB ! j)"
proof -
  note A = set_context_qa_result[OF assms(1)]
  note B = set_context_qa_result[OF assms(2)]
  have e: "embedder s1 = embedder s0" by (simp add: A(2))
  have "s2 = snd (set_context_qa (QASearcher_init (embedder s0)) qB aB)"
    by (simp add: B set_context_qa_ok QASearcher_init_def e A(2))
  moreover have q: "questions s2 = Some qB" and a: "answers s2 = Some aB"
    by (simp_all add: B(2))
  obtain sim where loop: "get_answers_loop s2 qs sim [0..<length sim] [] = Inr rs"
    using assms(3)
    by (auto simp: get_answers_def cosine_similarity_def split: sum.splits prod.splits)
  from get_answers_loop_sound[OF loop q a assms(4)]
  have "\<exists>j. j < length qB \<and> j < length aB \<and> best_q r = qB ! j \<and> best_a r = aB ! j" by simp
  ultimately show ?thesis by simp
qed

text \<open>
  An instance: the context \<open>a\<close> with answer \<open>old\<close> is replaced by \<open>bb, a, c\<close>; the query
  \<open>z\<close>, which matches \<open>a\<close>, gets the new answer \<open>A\<close>.
\<close>

theorem context_replacement_is_total_witness:
  "set_context_qa (QASearcher_init demo_embedder) [''a''] [''old''] = (Inr (), demo_searcher_old) \<and>
   set_context_qa demo_searcher_old [''bb'', ''a'', ''c''] [''B'', ''A'', ''C'']
     = (Inr (), demo_searcher) \<and>
   get_answers float32_mm demo_searcher [''z''] 1
     = (Inr [\<lparr>orig_q = ''z'', best_q = ''a'', best_a = ''A''\<rparr>], demo_searcher) \<and>
   \<lparr>orig_q = ''z'', best_q = ''a'', best_a = ''A''\<rparr>
     \<in> set [\<lparr>orig_q = ''z'', best_q = ''a'', best_a = ''A''\<rparr>] \<and>
   demo_searcher = snd (set_context_qa (QASearcher_init (embedder (QASearcher_init demo_embedder)))
                          [''bb'', ''a'', ''c''] [''B'', ''A'', ''C'']) \<and>
   (\<exists>j. j < length [''bb'', ''a'', ''c''] \<and> j < length [''B'', ''A'', ''C''] \<and>
        best_q \<lparr>orig_q = ''z'', best_q = ''a'', best_a = ''A''\<rparr> = [''bb'', ''a'', ''c''] ! j \<and>
        best_a \<lparr>orig_q = ''z'', best_q = ''a'', best_a = ''A''\<rparr> = [''B'', ''A'', ''C''] ! j)"
proof -
  have A: "set_context_qa (QASearcher_init demo_embedder) [''a''] [''old''] = (Inr (), demo_searcher_old)"
    by (simp add: demo_searcher_old_def set_context_qa_ok)
  have B: "set_context_qa demo_searcher_old [''bb'', ''a'', ''c''] [''B'', ''A'', ''C'']
     = (Inr (), demo_searcher)"
    by (simp add: demo_searcher_old_def demo_searcher_def set_context_qa_ok QASearcher_init_def)
  have r: "\<lparr>orig_q = ''z'', best_q = ''a'', best_a = ''A''\<rparr>
     \<in> set [\<lparr>orig_q = ''z'', best_q = ''a'', best_a = ''A''\<rparr>]" by simp
  from context_replacement_is_total[OF A B demo_get_answers r] A B demo_get_answers
  show ?thesis by simp
qed

subsection \<open>C10: answering does not change the searcher\<close>

text \<open>
  Claim C10. A call of \<open>get_answers\<close> leaves the stored questions, answers and
  embeddings as they were, whether it returns or raises: the searcher after the call is
  the searcher before it.
\<close>

theorem get_answers_leaves_searcher_unchanged:
  "snd (get_answers mm self qs batch) = self"
  by (simp add: get_answers_def cosine_similarity_def split: sum.splits prod.splits)

end
